theory Spec2Isabelle
  imports Main
begin

section \<open>The playlist route: data\<close>

text \<open>
  The theory embeds \<^verbatim>\<open>apps/web/app/api/playlist/route.ts\<close>: the \<^verbatim>\<open>GET\<close> handler
  that validates the request, looks the video up, checks its visibility, lists the
  stored segments of one track, resolves a signed URL and a duration for every
  segment and hands the result to the playlist generator.

  The handler talks to collaborators (the database, the session, the S3 client, the
  playlist generator). Each of them is a field of an environment record; a call that
  can throw returns a sum whose \<open>Inl\<close> is the thrown value. The handler returns the
  list of collaborator calls it issued, in order, together with its outcome.
\<close>

text \<open>A row of the \<^verbatim>\<open>videos\<close> table, with the columns the handler reads. The flag
  \<^verbatim>\<open>public\<close> is compared with \<^verbatim>\<open>=== false\<close>, so a value that is neither
  \<^verbatim>\<open>true\<close> nor \<^verbatim>\<open>false\<close> (null, undefined) is kept apart as \<open>None\<close>.\<close>

record video =
  ownerId :: string
  "public" :: "bool option"

text \<open>The session's user, as \<^verbatim>\<open>getCurrentUser\<close> returns it.\<close>

record user =
  userId :: string

text \<open>The request: its origin and its search parameters
  (\<^verbatim>\<open>searchParams.get\<close> returns null for a parameter that is not there).\<close>

record request =
  origin :: string
  searchParams :: "string \<rightharpoonup> string"

text \<open>Input and output of \<^verbatim>\<open>ListObjectsV2Command\<close>, and the output of
  \<^verbatim>\<open>HeadObjectCommand\<close>; \<^verbatim>\<open>Contents\<close> and \<^verbatim>\<open>Metadata\<close> may be undefined.\<close>

record list_input =
  Bucket :: string
  Prefix :: string
  MaxKeys :: "nat option"

record s3_object =
  Key :: string

record list_output =
  Contents :: "s3_object list option"

record head_output =
  Metadata :: "(string \<rightharpoonup> string) option"

text \<open>An element of \<^verbatim>\<open>chunksUrls\<close>: \<^verbatim>\<open>{ url, duration }\<close>.\<close>

record chunk =
  url :: string
  duration :: string

text \<open>A response body is either \<^verbatim>\<open>JSON.stringify({ error, message })\<close>, kept as
  its two fields, or the playlist text. The \<^verbatim>\<open>error\<close> field is \<^verbatim>\<open>true\<close> or the
  value caught by the \<^verbatim>\<open>catch\<close> block; how \<^verbatim>\<open>JSON.stringify\<close> prints that value
  is left open.\<close>

datatype 'e error_field = ETrue | EValue 'e

datatype 'e body = Json "'e error_field" string | Text string

record 'e response =
  status :: nat
  body :: "'e body"
  headers :: "(string \<times> string) list"

text \<open>The handler either returns a response or rejects with a value that no
  \<^verbatim>\<open>catch\<close> block of its own caught.\<close>

datatype 'e outcome = Response "'e response" | Uncaught 'e

text \<open>The collaborator calls the handler can issue, with their arguments.\<close>

datatype 'e event =
    CallDb string
  | CallSession
  | CallList list_input
  | CallSign string string nat
  | CallHead string string
  | CallBuild "chunk list"
  | LogError 'e

text \<open>The configuration \<^verbatim>\<open>new S3Client\<close> is called with.\<close>

record s3_config =
  region :: string
  accessKeyId :: string
  secretAccessKey :: string

text \<open>The environment: the \<^verbatim>\<open>process.env\<close> variables the handler's result
  depends on, and the collaborators. \<^verbatim>\<open>new_S3Client\<close> is the constructor of the
  client: it throws on a configuration it refuses (an empty region, for one), and
  the client it returns is what \<^verbatim>\<open>s3_list\<close>, \<^verbatim>\<open>getSignedUrl\<close> and \<^verbatim>\<open>s3_head\<close>
  stand for. \<^verbatim>\<open>db_select v\<close> is
  \<^verbatim>\<open>db.select().from(videos).where(eq(videos.id, v))\<close>; \<^verbatim>\<open>s3_list\<close> and
  \<^verbatim>\<open>s3_head\<close> are \<^verbatim>\<open>s3Client.send\<close> of a \<^verbatim>\<open>ListObjectsV2Command\<close> and of a
  \<^verbatim>\<open>HeadObjectCommand\<close> (bucket, key); \<^verbatim>\<open>getSignedUrl\<close> takes the bucket, the
  key and \<^verbatim>\<open>expiresIn\<close>. \<^verbatim>\<open>generateM3U8Playlist\<close> is imported from
  \<^verbatim>\<open>@/utils/video/ffmpeg/helpers\<close> and is a parameter here.\<close>

record 'e env =
  NEXT_PUBLIC_URL :: "string option"
  CAP_AWS_BUCKET :: "string option"
  CAP_AWS_REGION :: "string option"
  CAP_AWS_ACCESS_KEY :: "string option"
  CAP_AWS_SECRET_KEY :: "string option"
  db_select :: "string \<Rightarrow> 'e + video list"
  getCurrentUser :: "'e + user option"
  new_S3Client :: "s3_config \<Rightarrow> 'e + unit"
  s3_list :: "list_input \<Rightarrow> 'e + list_output"
  getSignedUrl :: "string \<Rightarrow> string \<Rightarrow> nat \<Rightarrow> 'e + string"
  s3_head :: "string \<Rightarrow> string \<Rightarrow> 'e + head_output"
  generateM3U8Playlist :: "chunk list \<Rightarrow> 'e + string"

section \<open>The playlist route: operations\<close>

text \<open>\<^verbatim>\<open>x || ""\<close> on a value that is a string, null or undefined.\<close>

definition or_empty :: "string option \<Rightarrow> string" where
  "or_empty v = (case v of None \<Rightarrow> '''' | Some s \<Rightarrow> (if s = '''' then '''' else s))"

definition allowedOrigins :: "'e env \<Rightarrow> string option list" where
  "allowedOrigins env = [NEXT_PUBLIC_URL env, Some ''https://cap.link'', Some ''cap.link'']"

text \<open>The three CORS headers every response of the handler carries.\<close>

definition corsHeaders :: "'e env \<Rightarrow> request \<Rightarrow> (string \<times> string) list" where
  "corsHeaders env req =
     [(''Access-Control-Allow-Origin'',
         if Some (origin req) \<in> set (allowedOrigins env) then origin req else ''null''),
      (''Access-Control-Allow-Credentials'', ''true''),
      (''Access-Control-Allow-Methods'', ''GET, OPTIONS'')]"

text \<open>The error responses: status 401 with \<^verbatim>\<open>error: true\<close>, and the one of the
  \<^verbatim>\<open>catch\<close> block, status 500 with the caught value.\<close>

definition error401 :: "'e env \<Rightarrow> request \<Rightarrow> string \<Rightarrow> 'e response" where
  "error401 env req msg =
     \<lparr>status = 401, body = Json ETrue msg, headers = corsHeaders env req\<rparr>"

definition caught :: "'e env \<Rightarrow> request \<Rightarrow> 'e event list \<Rightarrow> 'e \<Rightarrow> 'e event list \<times> 'e outcome" where
  "caught env req tr e =
     (tr @ [LogError e],
      Response \<lparr>status = 500, body = Json (EValue e) ''Error generating video URLs'',
                headers = corsHeaders env req\<rparr>)"

subsection \<open>Resolving one segment\<close>

text \<open>\<^verbatim>\<open>metadata?.Metadata?.duration\<close>: undefined when \<^verbatim>\<open>Metadata\<close> is undefined or
  has no \<^verbatim>\<open>duration\<close> entry.\<close>

definition duration_field :: "head_output \<Rightarrow> string option" where
  "duration_field md = (case Metadata md of None \<Rightarrow> None | Some m \<Rightarrow> m ''duration'')"

text \<open>\<^verbatim>\<open>{ url: url, duration: metadata?.Metadata?.duration ?? "" }\<close>\<close>

definition chunk_of :: "string \<Rightarrow> head_output \<Rightarrow> chunk" where
  "chunk_of u md =
     \<lparr>url = u, duration = (case duration_field md of None \<Rightarrow> '''' | Some d \<Rightarrow> d)\<rparr>"

text \<open>The body of the \<^verbatim>\<open>async (object) => ...\<close> callback read from top to bottom:
  sign the URL, then fetch the metadata, then build the chunk. A failing call
  rejects the callback's promise.\<close>

definition chunk_callback :: "'e env \<Rightarrow> string \<Rightarrow> string \<Rightarrow> 'e + chunk" where
  "chunk_callback env bucket k =
     (case getSignedUrl env bucket k 3600 of
        Inl e \<Rightarrow> Inl e
      | Inr u \<Rightarrow> (case s3_head env bucket k of
                   Inl e \<Rightarrow> Inl e
                 | Inr md \<Rightarrow> Inr (chunk_of u md)))"

subsection \<open>\<^verbatim>\<open>Promise.all\<close> over the callbacks\<close>

text \<open>
  \<^verbatim>\<open>map\<close> starts one callback per listed object; each runs to its first
  \<^verbatim>\<open>await\<close>, so every \<^verbatim>\<open>getSignedUrl\<close> call is issued in listing order. From
  then on a callback is suspended at one of its two awaits or finished, and the
  order in which the awaited calls settle is not fixed by the program. A schedule
  is a list of positions: each entry settles the pending await of the callback at
  that position. Awaits the schedule leaves pending settle afterwards, callback by
  callback in listing order. \<^verbatim>\<open>Promise.all\<close> rejects with the first rejection it
  sees and otherwise resolves with the results in the order of its input. The
  handler resumes as soon as \<^verbatim>\<open>Promise.all\<close> settles, so the calls recorded are those
  issued up to that moment; callbacks still in flight after a rejection are not
  cancelled by the program, and what they do later is not part of the handler's run.
\<close>

text \<open>Where a callback stands: waiting for its signed URL, waiting for the metadata
  (the URL in hand), or finished with its chunk.\<close>

datatype phase = AwaitSign | AwaitHead string | Done chunk

type_synonym task = "string \<times> phase"

text \<open>The awaited call of a callback settles: the callback is rejected with the
  call's error, or goes on to its next await (sending the \<^verbatim>\<open>HeadObjectCommand\<close> after
  the URL arrived) or to its end.\<close>

fun settle :: "'e env \<Rightarrow> string \<Rightarrow> task \<Rightarrow> 'e event list \<times> ('e + task)" where
  "settle env bucket (k, AwaitSign) =
     (case getSignedUrl env bucket k 3600 of
        Inl e \<Rightarrow> ([], Inl e)
      | Inr u \<Rightarrow> ([CallHead bucket k], Inr (k, AwaitHead u)))"
| "settle env bucket (k, AwaitHead u) =
     (case s3_head env bucket k of
        Inl e \<Rightarrow> ([], Inl e)
      | Inr md \<Rightarrow> ([], Inr (k, Done (chunk_of u md))))"
| "settle env bucket (k, Done c) = ([], Inr (k, Done c))"

text \<open>The settlements of a schedule, one after the other, until a callback is
  rejected. A position outside the listing is skipped.\<close>

fun run :: "'e env \<Rightarrow> string \<Rightarrow> nat list \<Rightarrow> task list \<Rightarrow> 'e event list \<times> ('e + task list)" where
  "run env bucket [] ts = ([], Inr ts)"
| "run env bucket (i # sched) ts =
     (if i < length ts then
        (case settle env bucket (ts ! i) of
           (ev, Inl e) \<Rightarrow> (ev, Inl e)
         | (ev, Inr t) \<Rightarrow>
             (case run env bucket sched (ts[i := t]) of (ev', r) \<Rightarrow> (ev @ ev', r)))
      else run env bucket sched ts)"

text \<open>A callback runs from where it stands to its end, and all callbacks do so in
  listing order, until one is rejected.\<close>

fun complete :: "'e env \<Rightarrow> string \<Rightarrow> task \<Rightarrow> 'e event list \<times> ('e + chunk)" where
  "complete env bucket (k, AwaitSign) =
     (case getSignedUrl env bucket k 3600 of
        Inl e \<Rightarrow> ([], Inl e)
      | Inr u \<Rightarrow> (case s3_head env bucket k of
                   Inl e \<Rightarrow> ([CallHead bucket k], Inl e)
                 | Inr md \<Rightarrow> ([CallHead bucket k], Inr (chunk_of u md))))"
| "complete env bucket (k, AwaitHead u) =
     (case s3_head env bucket k of
        Inl e \<Rightarrow> ([], Inl e)
      | Inr md \<Rightarrow> ([], Inr (chunk_of u md)))"
| "complete env bucket (k, Done c) = ([], Inr c)"

fun finish :: "'e env \<Rightarrow> string \<Rightarrow> task list \<Rightarrow> 'e event list \<times> ('e + chunk list)" where
  "finish env bucket [] = ([], Inr [])"
| "finish env bucket (t # ts) =
     (case complete env bucket t of
        (ev, Inl e) \<Rightarrow> (ev, Inl e)
      | (ev, Inr c) \<Rightarrow>
          (case finish env bucket ts of
             (ev', Inl e) \<Rightarrow> (ev @ ev', Inl e)
           | (ev', Inr cs) \<Rightarrow> (ev @ ev', Inr (c # cs))))"

text \<open>\<^verbatim>\<open>Promise.all(contents.map(async (object) => ...))\<close> on the listed keys.\<close>

definition promise_all ::
  "'e env \<Rightarrow> string \<Rightarrow> string list \<Rightarrow> nat list \<Rightarrow> 'e event list \<times> ('e + chunk list)" where
  "promise_all env bucket keys sched =
     (let issued = map (\<lambda>k. CallSign bucket k 3600) keys in
      case run env bucket sched (map (\<lambda>k. (k, AwaitSign)) keys) of
        (ev, Inl e) \<Rightarrow> (issued @ ev, Inl e)
      | (ev, Inr ts) \<Rightarrow>
          (case finish env bucket ts of (ev', r) \<Rightarrow> (issued @ ev @ ev', r)))"

subsection \<open>The handler\<close>

text \<open>The \<^verbatim>\<open>switch (videoType)\<close>: the prefix of the track, or nothing for the
  \<^verbatim>\<open>default\<close> branch.\<close>

definition prefix_of :: "string \<Rightarrow> string \<Rightarrow> string \<Rightarrow> string option" where
  "prefix_of uid vid videoType =
     (if videoType = ''screen'' then Some (uid @ ''/'' @ vid @ ''/screen/'')
      else if videoType = ''video'' then Some (uid @ ''/'' @ vid @ ''/video/'')
      else if videoType = ''audio'' then Some (uid @ ''/'' @ vid @ ''/audio/'')
      else None)"

text \<open>The constants of the handler's first lines: the four search parameters and
  the bucket.\<close>

definition userId_of :: "request \<Rightarrow> string" where
  "userId_of req = or_empty (searchParams req ''userId'')"

definition videoId_of :: "request \<Rightarrow> string" where
  "videoId_of req = or_empty (searchParams req ''videoId'')"

definition videoType_of :: "request \<Rightarrow> string" where
  "videoType_of req = or_empty (searchParams req ''videoType'')"

definition thumbnail_of :: "request \<Rightarrow> string" where
  "thumbnail_of req = or_empty (searchParams req ''thumbnail'')"

definition bucket_of :: "'e env \<Rightarrow> string" where
  "bucket_of env = or_empty (CAP_AWS_BUCKET env)"

text \<open>The listing command; \<^verbatim>\<open>MaxKeys: thumbnail ? 1 : undefined\<close>, where a string
  is truthy when it is not empty.\<close>

definition objectsCommand :: "string \<Rightarrow> string \<Rightarrow> string \<Rightarrow> list_input" where
  "objectsCommand bucket prefix thumbnail =
     \<lparr>Bucket = bucket, Prefix = prefix,
      MaxKeys = (if thumbnail \<noteq> '''' then Some 1 else None)\<rparr>"

text \<open>\<^verbatim>\<open>objects.Contents || []\<close> (an array, also an empty one, is truthy).\<close>

definition contents_of :: "list_output \<Rightarrow> s3_object list" where
  "contents_of objects = (case Contents objects of None \<Rightarrow> [] | Some cs \<Rightarrow> cs)"

text \<open>The \<^verbatim>\<open>try\<close> block (lines 123 to 215) with its \<^verbatim>\<open>catch\<close>. The
  \<^verbatim>\<open>default\<close> branch returns from inside the \<^verbatim>\<open>try\<close>.\<close>

definition try_block :: "'e env \<Rightarrow> request \<Rightarrow> nat list \<Rightarrow> 'e event list \<times> 'e outcome" where
  "try_block env req sched =
     (case prefix_of (userId_of req) (videoId_of req) (videoType_of req) of
        None \<Rightarrow> ([], Response (error401 env req ''Invalid video type''))
      | Some prefix \<Rightarrow>
          (let cmd = objectsCommand (bucket_of env) prefix (thumbnail_of req) in
           case s3_list env cmd of
             Inl e \<Rightarrow> caught env req [CallList cmd] e
           | Inr objects \<Rightarrow>
               (case promise_all env (bucket_of env) (map Key (contents_of objects)) sched of
                  (ev, Inl e) \<Rightarrow> caught env req (CallList cmd # ev) e
                | (ev, Inr chunksUrls) \<Rightarrow>
                    (case generateM3U8Playlist env chunksUrls of
                       Inl e \<Rightarrow> caught env req (CallList cmd # ev @ [CallBuild chunksUrls]) e
                     | Inr generatedPlaylist \<Rightarrow>
                         (CallList cmd # ev @ [CallBuild chunksUrls],
                          Response
                            \<lparr>status = 200, body = Text generatedPlaylist,
                             headers = (''content-type'', ''application/x-mpegURL'')
                                         # corsHeaders env req\<rparr>)))))"

text \<open>The configuration of lines 110 to 116, every variable with its \<^verbatim>\<open>|| ""\<close>.\<close>

definition s3_config_of :: "'e env \<Rightarrow> s3_config" where
  "s3_config_of env =
     \<lparr>region = or_empty (CAP_AWS_REGION env),
      accessKeyId = or_empty (CAP_AWS_ACCESS_KEY env),
      secretAccessKey = or_empty (CAP_AWS_SECRET_KEY env)\<rparr>"

text \<open>Lines 110 to 215, what the handler does once the visibility check has let the
  request through: it constructs the client and enters the \<^verbatim>\<open>try\<close> block. The
  constructor runs before the \<^verbatim>\<open>try\<close>, so when it throws the handler rejects.
  Constructing the client calls no collaborator.\<close>

definition s3Client_stage :: "'e env \<Rightarrow> request \<Rightarrow> nat list \<Rightarrow> 'e event list \<times> 'e outcome" where
  "s3Client_stage env req sched =
     (case new_S3Client env (s3_config_of env) of
        Inl e \<Rightarrow> ([], Uncaught e)
      | Inr s3Client \<Rightarrow> try_block env req sched)"

text \<open>The handler. The schedule only matters inside \<^verbatim>\<open>Promise.all\<close>. The database
  query, the session lookup and the construction of the client are outside the
  \<^verbatim>\<open>try\<close> block: when one of them throws, the handler rejects.\<close>

definition GET :: "'e env \<Rightarrow> request \<Rightarrow> nat list \<Rightarrow> 'e event list \<times> 'e outcome" where
  "GET env req sched =
     (if userId_of req = '''' \<or> videoId_of req = '''' then
        ([], Response (error401 env req ''userId or videoId not supplied''))
      else
        (case db_select env (videoId_of req) of
           Inl e \<Rightarrow> ([CallDb (videoId_of req)], Uncaught e)
         | Inr query \<Rightarrow>
             (case query of
                [] \<Rightarrow>
                  ([CallDb (videoId_of req)],
                   Response (error401 env req ''Video does not exist''))
              | v # _ \<Rightarrow>
                  (if public v = Some False then
                     (case getCurrentUser env of
                        Inl e \<Rightarrow> ([CallDb (videoId_of req), CallSession], Uncaught e)
                      | Inr usr \<Rightarrow>
                          (if (case usr of None \<Rightarrow> True | Some u \<Rightarrow> userId u \<noteq> ownerId v)
                           then
                             ([CallDb (videoId_of req), CallSession],
                              Response (error401 env req ''Video is not public''))
                           else
                             (case s3Client_stage env req sched of
                                (ev, out) \<Rightarrow>
                                  ([CallDb (videoId_of req), CallSession] @ ev, out))))
                   else
                     (case s3Client_stage env req sched of
                        (ev, out) \<Rightarrow> (CallDb (videoId_of req) # ev, out))))))"

subsection \<open>The playlist generator\<close>

text \<open>Modelled from the spec: \<^verbatim>\<open>generateM3U8Playlist\<close> is imported from
  \<^verbatim>\<open>@/utils/video/ffmpeg/helpers\<close>, which is not among the sources. The
  specification's ManifestBuilder renders one entry per resolved segment, in the
  order given, each with the segment's access URL and its duration, and uses the
  fallback duration 0 for a segment whose duration is absent. The handler passes an
  absent duration as the empty string. The specification leaves the line syntax of
  the text open, so the rendering of the entries is a parameter.\<close>

definition manifest_entries :: "chunk list \<Rightarrow> (string \<times> string) list" where
  "manifest_entries cs =
     map (\<lambda>c. (url c, if duration c = '''' then ''0'' else duration c)) cs"

definition generateM3U8Playlist_spec ::
  "((string \<times> string) list \<Rightarrow> string) \<Rightarrow> chunk list \<Rightarrow> 'e + string" where
  "generateM3U8Playlist_spec render cs = Inr (render (manifest_entries cs))"

section \<open>Invariants of the callbacks\<close>

text \<open>A suspended or finished callback is consistent with the collaborators when what
  it holds is what the calls made so far returned.\<close>

fun consistent :: "'e env \<Rightarrow> string \<Rightarrow> task \<Rightarrow> bool" where
  "consistent env bucket (k, AwaitSign) = True"
| "consistent env bucket (k, AwaitHead u) = (getSignedUrl env bucket k 3600 = Inr u)"
| "consistent env bucket (k, Done c) = (chunk_callback env bucket k = Inr c)"

text \<open>The calls issued for the segments with keys in \<open>K\<close>.\<close>

fun key_event :: "string \<Rightarrow> string set \<Rightarrow> 'e event \<Rightarrow> bool" where
  "key_event bucket K (CallSign b k n) = (b = bucket \<and> k \<in> K \<and> n = 3600)"
| "key_event bucket K (CallHead b k) = (b = bucket \<and> k \<in> K)"
| "key_event bucket K ev = False"

section \<open>A concrete deployment\<close>

text \<open>An environment and requests on which the handler is run below. The videos
  \<open>v1\<close> (public), \<open>v2\<close> (private) and \<open>v3\<close> (flag not set) belong to \<open>u1\<close>; nobody
  is signed in, and the client's constructor refuses an empty region. The screen
  track of \<open>v1\<close> has three segments, of which the second has
  no duration in its metadata, and the store returns the first \<^verbatim>\<open>MaxKeys\<close> of them
  when the listing is capped; the video track of \<open>v1\<close> has a segment whose metadata
  cannot be fetched; the audio track has no listing contents.\<close>

definition example_render :: "(string \<times> string) list \<Rightarrow> string" where
  "example_render es = concat (map (\<lambda>(u, d). ''#EXTINF:'' @ d @ '','' @ u @ '';'') es)"

definition example_stored :: "s3_object list" where
  "example_stored = [\<lparr>Key = ''s1''\<rparr>, \<lparr>Key = ''s2''\<rparr>, \<lparr>Key = ''s3''\<rparr>]"

definition example_env :: "string env" where
  "example_env =
     \<lparr>NEXT_PUBLIC_URL = Some ''https://cap.so'',
      CAP_AWS_BUCKET = Some ''capso'',
      CAP_AWS_REGION = Some ''us-east-1'',
      CAP_AWS_ACCESS_KEY = Some ''key'',
      CAP_AWS_SECRET_KEY = Some ''secret'',
      db_select = (\<lambda>vid.
        if vid = ''v1'' then Inr [\<lparr>ownerId = ''u1'', public = Some True\<rparr>]
        else if vid = ''v2'' then Inr [\<lparr>ownerId = ''u1'', public = Some False\<rparr>]
        else if vid = ''v3'' then Inr [\<lparr>ownerId = ''u1'', public = None\<rparr>]
        else Inr []),
      getCurrentUser = Inr None,
      new_S3Client = (\<lambda>cfg. if region cfg = '''' then Inl ''Region is missing'' else Inr ()),
      s3_list = (\<lambda>cmd.
        if Prefix cmd = ''u1/v1/screen/'' then
          Inr \<lparr>Contents = Some (case MaxKeys cmd of None \<Rightarrow> example_stored
                                 | Some n \<Rightarrow> take n example_stored)\<rparr>
        else if Prefix cmd = ''u1/v1/video/'' then
          Inr \<lparr>Contents = Some [\<lparr>Key = ''s1''\<rparr>, \<lparr>Key = ''bad''\<rparr>]\<rparr>
        else Inr \<lparr>Contents = None\<rparr>),
      getSignedUrl = (\<lambda>b k n. Inr (''https://s3/'' @ k)),
      s3_head = (\<lambda>b k.
        if k = ''s1'' then Inr \<lparr>Metadata = Some [''duration'' \<mapsto> ''4.0'']\<rparr>
        else if k = ''s2'' then Inr \<lparr>Metadata = Some Map.empty\<rparr>
        else if k = ''s3'' then Inr \<lparr>Metadata = Some [''duration'' \<mapsto> ''5.5'']\<rparr>
        else Inl ''NotFound''),
      generateM3U8Playlist = generateM3U8Playlist_spec example_render\<rparr>"

definition example_request :: "string \<Rightarrow> string \<Rightarrow> string \<Rightarrow> request" where
  "example_request vid videoType thumbnail =
     \<lparr>origin = ''https://cap.link'',
      searchParams = [''userId'' \<mapsto> ''u1'', ''videoId'' \<mapsto> vid,
                      ''videoType'' \<mapsto> videoType, ''thumbnail'' \<mapsto> thumbnail]\<rparr>"

section \<open>Properties of \<^verbatim>\<open>Promise.all\<close>\<close>

lemma settle_Inr:
  "consistent env bucket t \<Longrightarrow> settle env bucket t = (ev, Inr t')
     \<Longrightarrow> consistent env bucket t' \<and> fst t' = fst t"
  by (cases "(env, bucket, t)" rule: settle.cases)
     (auto simp: chunk_callback_def split: sum.splits)

lemma settle_Inl:
  "consistent env bucket t \<Longrightarrow> settle env bucket t = (ev, Inl e)
     \<Longrightarrow> chunk_callback env bucket (fst t) = Inl e"
  by (cases "(env, bucket, t)" rule: settle.cases)
     (auto simp: chunk_callback_def split: sum.splits)

lemma complete_Inr:
  "consistent env bucket t \<Longrightarrow> complete env bucket t = (ev, Inr c)
     \<Longrightarrow> chunk_callback env bucket (fst t) = Inr c"
  by (cases "(env, bucket, t)" rule: complete.cases)
     (auto simp: chunk_callback_def split: sum.splits)

lemma complete_Inl:
  "consistent env bucket t \<Longrightarrow> complete env bucket t = (ev, Inl e)
     \<Longrightarrow> chunk_callback env bucket (fst t) = Inl e"
  by (cases "(env, bucket, t)" rule: complete.cases)
     (auto simp: chunk_callback_def split: sum.splits)

lemma list_all_update: "list_all P ts \<Longrightarrow> P t \<Longrightarrow> list_all P (ts[i := t])"
  unfolding list_all_iff using set_update_subset_insert [of ts i t] by auto

lemma run_Inr:
  "list_all (consistent env bucket) ts \<Longrightarrow> run env bucket sched ts = (ev, Inr ts')
     \<Longrightarrow> list_all (consistent env bucket) ts' \<and> map fst ts' = map fst ts"
proof (induction sched arbitrary: ts ev)
  case Nil
  then show ?case by simp
next
  case (Cons i sched)
  show ?case
  proof (cases "i < length ts")
    case False
    with Cons show ?thesis by simp
  next
    case True
    obtain ev1 r1 where s: "settle env bucket (ts ! i) = (ev1, r1)"
      by (cases "settle env bucket (ts ! i)")
    from Cons.prems(2) True s obtain t where r1: "r1 = Inr t"
      by (cases r1) auto
    obtain ev2 r2 where r: "run env bucket sched (ts[i := t]) = (ev2, r2)"
      by (cases "run env bucket sched (ts[i := t])")
    from Cons.prems(2) True s r1 r have r2: "r2 = Inr ts'" by simp
    from Cons.prems(1) True have ci: "consistent env bucket (ts ! i)"
      by (simp add: list_all_length)
    from settle_Inr [OF ci] s r1
    have ct: "consistent env bucket t" and ft: "fst t = fst (ts ! i)" by auto
    from Cons.prems(1) ct have "list_all (consistent env bucket) (ts[i := t])"
      by (rule list_all_update)
    from Cons.IH [OF this] r r2
    have "list_all (consistent env bucket) ts'" and "map fst ts' = map fst (ts[i := t])"
      by auto
    moreover have "map fst (ts[i := t]) = map fst ts"
      using ft True by (simp add: map_update list_update_same_conv)
    ultimately show ?thesis by simp
  qed
qed

lemma run_Inl:
  "list_all (consistent env bucket) ts \<Longrightarrow> run env bucket sched ts = (ev, Inl e)
     \<Longrightarrow> \<exists>k \<in> set (map fst ts). chunk_callback env bucket k = Inl e"
proof (induction sched arbitrary: ts ev)
  case Nil
  then show ?case by simp
next
  case (Cons i sched)
  show ?case
  proof (cases "i < length ts")
    case False
    with Cons show ?thesis by simp
  next
    case True
    obtain ev1 r1 where s: "settle env bucket (ts ! i) = (ev1, r1)"
      by (cases "settle env bucket (ts ! i)")
    from Cons.prems(1) True have ci: "consistent env bucket (ts ! i)"
      by (simp add: list_all_length)
    show ?thesis
    proof (cases r1)
      case (Inl e1)
      with Cons.prems(2) True s have "e1 = e" by simp
      with settle_Inl [OF ci] s Inl
      have "chunk_callback env bucket (fst (ts ! i)) = Inl e" by simp
      with True show ?thesis by (auto intro: bexI [of _ "fst (ts ! i)"])
    next
      case (Inr t)
      obtain ev2 r2 where r: "run env bucket sched (ts[i := t]) = (ev2, r2)"
        by (cases "run env bucket sched (ts[i := t])")
      from Cons.prems(2) True s Inr r have r2: "r2 = Inl e" by simp
      from settle_Inr [OF ci] s Inr
      have ct: "consistent env bucket t" and ft: "fst t = fst (ts ! i)" by auto
      from Cons.prems(1) ct have "list_all (consistent env bucket) (ts[i := t])"
        by (rule list_all_update)
      from Cons.IH [OF this] r r2
      have "\<exists>k \<in> set (map fst (ts[i := t])). chunk_callback env bucket k = Inl e" by simp
      moreover have "map fst (ts[i := t]) = map fst ts"
        using ft True by (simp add: map_update list_update_same_conv)
      ultimately show ?thesis by simp
    qed
  qed
qed

lemma finish_Inr:
  "list_all (consistent env bucket) ts \<Longrightarrow> finish env bucket ts = (ev, Inr cs)
     \<Longrightarrow> map (chunk_callback env bucket) (map fst ts) = map Inr cs"
proof (induction ts arbitrary: ev cs)
  case Nil
  then show ?case by auto
next
  case (Cons t ts)
  from Cons.prems(2) obtain ev1 c ev2 cs' where
    c: "complete env bucket t = (ev1, Inr c)" and
    f: "finish env bucket ts = (ev2, Inr cs')" and cs: "cs = c # cs'"
    by (auto split: prod.splits sum.splits)
  from Cons.prems(1) have "consistent env bucket t" "list_all (consistent env bucket) ts"
    by simp_all
  with complete_Inr [OF _ c] Cons.IH [OF _ f] cs show ?case by simp
qed

lemma finish_Inl:
  "list_all (consistent env bucket) ts \<Longrightarrow> finish env bucket ts = (ev, Inl e)
     \<Longrightarrow> \<exists>k \<in> set (map fst ts). chunk_callback env bucket k = Inl e"
proof (induction ts arbitrary: ev)
  case Nil
  then show ?case by auto
next
  case (Cons t ts)
  from Cons.prems(1) have ct: "consistent env bucket t"
    and cts: "list_all (consistent env bucket) ts" by simp_all
  obtain ev1 r1 where c: "complete env bucket t = (ev1, r1)"
    by (cases "complete env bucket t")
  show ?case
  proof (cases r1)
    case (Inl e1)
    with Cons.prems(2) c have "e1 = e" by simp
    with complete_Inl [OF ct] c Inl show ?thesis by simp
  next
    case (Inr c1)
    with Cons.prems(2) c obtain ev2 where "finish env bucket ts = (ev2, Inl e)"
      by (auto split: prod.splits sum.splits)
    from Cons.IH [OF cts this] show ?thesis by auto
  qed
qed

lemma init_consistent: "list_all (consistent env bucket) (map (\<lambda>k. (k, AwaitSign)) keys)"
  by (induction keys) simp_all

lemma promise_all_Inr:
  assumes "promise_all env bucket keys sched = (ev, Inr cs)"
  shows "map (chunk_callback env bucket) keys = map Inr cs"
proof -
  from assms obtain ev1 ts ev2 where
    r: "run env bucket sched (map (\<lambda>k. (k, AwaitSign)) keys) = (ev1, Inr ts)" and
    f: "finish env bucket ts = (ev2, Inr cs)"
    by (auto simp: promise_all_def Let_def split: prod.splits sum.splits)
  from run_Inr [OF init_consistent r]
  have "list_all (consistent env bucket) ts" and "map fst ts = keys"
    by (simp_all add: comp_def)
  with finish_Inr [OF _ f] show ?thesis by simp
qed

lemma promise_all_Inl:
  assumes "promise_all env bucket keys sched = (ev, Inl e)"
  shows "\<exists>k \<in> set keys. chunk_callback env bucket k = Inl e"
proof -
  obtain ev1 r1 where
    r: "run env bucket sched (map (\<lambda>k. (k, AwaitSign)) keys) = (ev1, r1)"
    by (cases "run env bucket sched (map (\<lambda>k. (k, AwaitSign)) keys)")
  show ?thesis
  proof (cases r1)
    case (Inl e1)
    with assms r have "e1 = e" by (simp add: promise_all_def Let_def)
    with run_Inl [OF init_consistent] r Inl show ?thesis by (simp add: comp_def)
  next
    case (Inr ts)
    with assms r obtain ev2 where f: "finish env bucket ts = (ev2, Inl e)"
      by (auto simp: promise_all_def Let_def split: prod.splits)
    from r Inr have "run env bucket sched (map (\<lambda>k. (k, AwaitSign)) keys) = (ev1, Inr ts)"
      by simp
    from run_Inr [OF init_consistent this]
    have "list_all (consistent env bucket) ts" and "map fst ts = keys"
      by (simp_all add: comp_def)
    with finish_Inl [OF _ f] show ?thesis by simp
  qed
qed

lemma key_event_mono: "key_event bucket K x \<Longrightarrow> K \<subseteq> K' \<Longrightarrow> key_event bucket K' x"
  by (cases x) auto

lemma key_events_mono:
  "list_all (key_event bucket K) ev \<Longrightarrow> K \<subseteq> K' \<Longrightarrow> list_all (key_event bucket K') ev"
  by (auto simp: list_all_iff intro: key_event_mono)

lemma settle_events:
  "settle env bucket t = (ev, r) \<Longrightarrow> list_all (key_event bucket {fst t}) ev"
  by (cases "(env, bucket, t)" rule: settle.cases) (auto split: sum.splits)

lemma complete_events:
  "complete env bucket t = (ev, r) \<Longrightarrow> list_all (key_event bucket {fst t}) ev"
  by (cases "(env, bucket, t)" rule: complete.cases) (auto split: sum.splits)

lemma settle_key: "settle env bucket t = (ev, Inr t') \<Longrightarrow> fst t' = fst t"
  by (cases "(env, bucket, t)" rule: settle.cases) (auto split: sum.splits)

lemma run_events:
  "run env bucket sched ts = (ev, r) \<Longrightarrow> list_all (key_event bucket (set (map fst ts))) ev"
proof (induction sched arbitrary: ts ev r)
  case Nil
  then show ?case by simp
next
  case (Cons i sched)
  show ?case
  proof (cases "i < length ts")
    case False
    with Cons show ?thesis by simp
  next
    case True
    obtain ev1 r1 where s: "settle env bucket (ts ! i) = (ev1, r1)"
      by (cases "settle env bucket (ts ! i)")
    from True have "{fst (ts ! i)} \<subseteq> set (map fst ts)" by simp
    with settle_events [OF s] have e1: "list_all (key_event bucket (set (map fst ts))) ev1"
      by (rule key_events_mono)
    show ?thesis
    proof (cases r1)
      case (Inl e)
      with Cons.prems True s e1 show ?thesis by simp
    next
      case (Inr t)
      obtain ev2 r2 where r: "run env bucket sched (ts[i := t]) = (ev2, r2)"
        by (cases "run env bucket sched (ts[i := t])")
      from s Inr have "fst t = fst (ts ! i)" by (simp add: settle_key)
      with True have "map fst (ts[i := t]) = map fst ts"
        by (simp add: map_update list_update_same_conv)
      with Cons.IH [OF r] have "list_all (key_event bucket (set (map fst ts))) ev2" by simp
      with Cons.prems True s Inr r e1 show ?thesis by auto
    qed
  qed
qed

lemma finish_events:
  "finish env bucket ts = (ev, r) \<Longrightarrow> list_all (key_event bucket (set (map fst ts))) ev"
proof (induction ts arbitrary: ev r)
  case Nil
  then show ?case by simp
next
  case (Cons t ts)
  obtain ev1 r1 where c: "complete env bucket t = (ev1, r1)"
    by (cases "complete env bucket t")
  have "{fst t} \<subseteq> set (map fst (t # ts))" by simp
  with complete_events [OF c]
  have e1: "list_all (key_event bucket (set (map fst (t # ts)))) ev1"
    by (rule key_events_mono)
  show ?case
  proof (cases r1)
    case (Inl e)
    with Cons.prems c e1 show ?thesis by simp
  next
    case (Inr c1)
    obtain ev2 r2 where f: "finish env bucket ts = (ev2, r2)"
      by (cases "finish env bucket ts")
    have "set (map fst ts) \<subseteq> set (map fst (t # ts))" by auto
    with Cons.IH [OF f] have "list_all (key_event bucket (set (map fst (t # ts)))) ev2"
      by (rule key_events_mono)
    with Cons.prems c Inr f e1 show ?thesis
      by (cases r2) auto
  qed
qed

lemma promise_all_events:
  assumes "promise_all env bucket keys sched = (ev, r)"
  shows "list_all (key_event bucket (set keys)) ev"
proof -
  have i: "list_all (key_event bucket (set keys))
             (map (\<lambda>k. CallSign bucket k 3600 :: 'a event) keys)"
    by (simp add: list_all_iff)
  have k: "map fst (map (\<lambda>k. (k, AwaitSign)) keys) = keys"
    by (simp add: comp_def)
  obtain ev1 r1 where
    r: "run env bucket sched (map (\<lambda>k. (k, AwaitSign)) keys) = (ev1, r1)"
    by (cases "run env bucket sched (map (\<lambda>k. (k, AwaitSign)) keys)")
  from run_events [OF r] k have e1: "list_all (key_event bucket (set keys)) ev1"
    by simp
  show ?thesis
  proof (cases r1)
    case (Inl e)
    with assms r i e1 show ?thesis by (auto simp: promise_all_def Let_def)
  next
    case (Inr ts)
    obtain ev2 r2 where f: "finish env bucket ts = (ev2, r2)"
      by (cases "finish env bucket ts")
    from r Inr have "run env bucket sched (map (\<lambda>k. (k, AwaitSign)) keys) = (ev1, Inr ts)"
      by simp
    from run_Inr [OF init_consistent this] k have "map fst ts = keys" by simp
    with finish_events [OF f] have "list_all (key_event bucket (set keys)) ev2" by simp
    with assms r Inr f i e1 show ?thesis
      by (auto simp: promise_all_def Let_def)
  qed
qed

lemma run_Nil: "run env bucket sched [] = ([], Inr [])"
  by (induction sched) simp_all

lemma promise_all_Nil: "promise_all env bucket [] sched = ([], Inr [])"
  by (simp add: promise_all_def run_Nil)

lemma map_eq_Inr:
  assumes "map f keys = map Inr cs" "k \<in> set keys"
  shows "\<exists>c. f k = Inr c"
proof -
  from assms(2) have "f k \<in> set (map f keys)" by simp
  with assms(1) have "f k \<in> set (map Inr cs)" by simp
  then show ?thesis by auto
qed

lemma promise_all_resolves:
  assumes "map (chunk_callback env bucket) keys = map Inr cs"
  shows "\<exists>ev. promise_all env bucket keys sched = (ev, Inr cs)
           \<and> list_all (key_event bucket (set keys)) ev"
proof -
  obtain ev r where p: "promise_all env bucket keys sched = (ev, r)"
    by (cases "promise_all env bucket keys sched")
  show ?thesis
  proof (cases r)
    case (Inl e)
    with p have "promise_all env bucket keys sched = (ev, Inl e)" by simp
    from promise_all_Inl [OF this]
    obtain k where "k \<in> set keys" "chunk_callback env bucket k = Inl e" by blast
    moreover from assms have "\<forall>k \<in> set keys. \<exists>c. chunk_callback env bucket k = Inr c"
      by (blast dest: map_eq_Inr)
    ultimately show ?thesis by auto
  next
    case (Inr cs')
    with p have "promise_all env bucket keys sched = (ev, Inr cs')" by simp
    from promise_all_Inr [OF this]
    have "map (chunk_callback env bucket) keys = map Inr cs'" .
    with assms have "map Inr cs = (map Inr cs' :: ('a + chunk) list)" by simp
    then have "cs = cs'" by simp
    with p Inr promise_all_events [OF p] show ?thesis by simp
  qed
qed

lemma promise_all_rejects:
  assumes "k \<in> set keys" "chunk_callback env bucket k = Inl e0"
  shows "\<exists>ev e. promise_all env bucket keys sched = (ev, Inl e)
            \<and> list_all (key_event bucket (set keys)) ev
            \<and> (\<exists>k' \<in> set keys. chunk_callback env bucket k' = Inl e)"
proof -
  obtain ev r where p: "promise_all env bucket keys sched = (ev, r)"
    by (cases "promise_all env bucket keys sched")
  show ?thesis
  proof (cases r)
    case (Inl e)
    with p have p': "promise_all env bucket keys sched = (ev, Inl e)" by simp
    from promise_all_Inl [OF p'] p' promise_all_events [OF p] show ?thesis by blast
  next
    case (Inr cs)
    with p have "promise_all env bucket keys sched = (ev, Inr cs)" by simp
    from promise_all_Inr [OF this]
    have "map (chunk_callback env bucket) keys = map Inr cs" .
    then have "\<forall>k \<in> set keys. \<exists>c. chunk_callback env bucket k = Inr c"
      by (blast dest: map_eq_Inr)
    with assms show ?thesis by auto
  qed
qed

section \<open>Properties of the handler's stages\<close>

lemma key_events_no_list: "list_all (key_event bucket K) ev \<Longrightarrow> CallList c \<notin> set ev"
  by (auto simp: list_all_iff)

lemma key_events_no_build: "list_all (key_event bucket K) ev \<Longrightarrow> CallBuild cs \<notin> set ev"
  by (auto simp: list_all_iff)

lemma key_events_no_session: "list_all (key_event bucket K) ev \<Longrightarrow> CallSession \<notin> set ev"
  by (auto simp: list_all_iff)

lemma key_events_sign:
  "list_all (key_event bucket K) ev \<Longrightarrow> CallSign b k n \<in> set ev \<Longrightarrow> k \<in> K"
  by (auto simp: list_all_iff)

text \<open>The session is not a parameter of the \<^verbatim>\<open>try\<close> block.\<close>

lemma settle_session [simp]:
  "settle (env\<lparr>getCurrentUser := s\<rparr>) bucket t = settle env bucket t"
  by (cases "(env, bucket, t)" rule: settle.cases) (simp_all split: sum.splits)

lemma complete_session [simp]:
  "complete (env\<lparr>getCurrentUser := s\<rparr>) bucket t = complete env bucket t"
  by (cases "(env, bucket, t)" rule: complete.cases) (simp_all split: sum.splits)

lemma run_session [simp]:
  "run (env\<lparr>getCurrentUser := s\<rparr>) bucket sched ts = run env bucket sched ts"
  by (induction sched arbitrary: ts) simp_all

lemma finish_session [simp]:
  "finish (env\<lparr>getCurrentUser := s\<rparr>) bucket ts = finish env bucket ts"
  by (induction ts) simp_all

lemma try_block_session:
  "try_block (env\<lparr>getCurrentUser := s\<rparr>) req sched = try_block env req sched"
  by (simp add: try_block_def promise_all_def bucket_of_def error401_def caught_def
      corsHeaders_def allowedOrigins_def Let_def
      split: option.splits sum.splits prod.splits)

text \<open>The shapes of the \<^verbatim>\<open>try\<close> block's result.\<close>

lemma try_block_invalid:
  assumes "prefix_of (userId_of req) (videoId_of req) (videoType_of req) = None"
  shows "try_block env req sched = ([], Response (error401 env req ''Invalid video type''))"
  using assms by (simp add: try_block_def)

lemma try_block_resolves:
  assumes "prefix_of (userId_of req) (videoId_of req) (videoType_of req) = Some prefix"
    and "s3_list env (objectsCommand (bucket_of env) prefix (thumbnail_of req)) = Inr objects"
    and "map (chunk_callback env (bucket_of env)) (map Key (contents_of objects)) = map Inr cs"
  shows "\<exists>ev. list_all (key_event (bucket_of env) (set (map Key (contents_of objects)))) ev
          \<and> try_block env req sched =
              (case generateM3U8Playlist env cs of
                 Inl e \<Rightarrow>
                   caught env req
                     (CallList (objectsCommand (bucket_of env) prefix (thumbnail_of req))
                        # ev @ [CallBuild cs]) e
               | Inr generatedPlaylist \<Rightarrow>
                   (CallList (objectsCommand (bucket_of env) prefix (thumbnail_of req))
                      # ev @ [CallBuild cs],
                    Response
                      \<lparr>status = 200, body = Text generatedPlaylist,
                       headers = (''content-type'', ''application/x-mpegURL'')
                                   # corsHeaders env req\<rparr>))"
proof -
  from promise_all_resolves [OF assms(3), of sched] obtain ev where
    "promise_all env (bucket_of env) (map Key (contents_of objects)) sched = (ev, Inr cs)"
    "list_all (key_event (bucket_of env) (set (map Key (contents_of objects)))) ev"
    by blast
  with assms(1,2) show ?thesis
    by (intro exI [of _ ev]) (simp add: try_block_def Let_def)
qed

lemma try_block_rejects:
  assumes "prefix_of (userId_of req) (videoId_of req) (videoType_of req) = Some prefix"
    and "s3_list env (objectsCommand (bucket_of env) prefix (thumbnail_of req)) = Inr objects"
    and "k \<in> set (map Key (contents_of objects))"
    and "chunk_callback env (bucket_of env) k = Inl e0"
  shows "\<exists>ev e. list_all (key_event (bucket_of env) (set (map Key (contents_of objects)))) ev
          \<and> (\<exists>k' \<in> set (map Key (contents_of objects)).
                chunk_callback env (bucket_of env) k' = Inl e)
          \<and> try_block env req sched =
              caught env req
                (CallList (objectsCommand (bucket_of env) prefix (thumbnail_of req)) # ev) e"
proof -
  from promise_all_rejects [OF assms(3,4), of sched] obtain ev e where
    "promise_all env (bucket_of env) (map Key (contents_of objects)) sched = (ev, Inl e)"
    "list_all (key_event (bucket_of env) (set (map Key (contents_of objects)))) ev"
    "\<exists>k' \<in> set (map Key (contents_of objects)). chunk_callback env (bucket_of env) k' = Inl e"
    by blast
  with assms(1,2) show ?thesis
    by (intro exI [of _ ev] exI [of _ e]) (simp add: try_block_def Let_def)
qed

text \<open>Every run of the \<^verbatim>\<open>try\<close> block with a valid track issues the listing command
  first, and no second one; a playlist is only ever built from the chunks of all the
  listed keys, in listing order.\<close>

lemma try_block_trace:
  assumes "prefix_of (userId_of req) (videoId_of req) (videoType_of req) = Some prefix"
  shows "\<exists>tl. fst (try_block env req sched) =
                CallList (objectsCommand (bucket_of env) prefix (thumbnail_of req)) # tl
          \<and> (\<forall>c. CallList c \<notin> set tl) \<and> CallSession \<notin> set tl
          \<and> (\<forall>cs. CallBuild cs \<in> set tl \<longrightarrow>
                (\<exists>objects.
                   s3_list env (objectsCommand (bucket_of env) prefix (thumbnail_of req))
                     = Inr objects
                   \<and> map (chunk_callback env (bucket_of env)) (map Key (contents_of objects))
                       = map Inr cs))
          \<and> (\<forall>b k n. CallSign b k n \<in> set tl \<longrightarrow>
                (\<exists>objects.
                   s3_list env (objectsCommand (bucket_of env) prefix (thumbnail_of req))
                     = Inr objects
                   \<and> k \<in> set (map Key (contents_of objects))))"
proof (cases "s3_list env (objectsCommand (bucket_of env) prefix (thumbnail_of req))")
  case (Inl e)
  with assms show ?thesis by (simp add: try_block_def Let_def caught_def)
next
  case (Inr objects)
  obtain ev r where
    p: "promise_all env (bucket_of env) (map Key (contents_of objects)) sched = (ev, r)"
    by (cases "promise_all env (bucket_of env) (map Key (contents_of objects)) sched")
  note ke = promise_all_events [OF p]
  note nl = key_events_no_list [OF ke] and nb = key_events_no_build [OF ke]
    and ns = key_events_no_session [OF ke] and sg = key_events_sign [OF ke]
  show ?thesis
  proof (cases r)
    case (Inl e)
    with assms Inr p nl nb ns sg show ?thesis
      by (auto simp: try_block_def Let_def caught_def)
  next
    case r: (Inr cs)
    with p have "promise_all env (bucket_of env) (map Key (contents_of objects)) sched
                   = (ev, Inr cs)" by simp
    note eq = promise_all_Inr [OF this]
    show ?thesis
    proof (cases "generateM3U8Playlist env cs")
      case (Inl e)
      with assms Inr p r nl nb ns sg eq show ?thesis
        by (auto simp: try_block_def Let_def caught_def)
    next
      case g: (Inr pl)
      with assms Inr p r nl nb ns sg eq show ?thesis
        by (auto simp: try_block_def Let_def)
    qed
  qed
qed

lemma try_block_not_forbidden:
  "snd (try_block env req sched) \<noteq> Response (error401 env req ''Video is not public'')"
  by (auto simp: try_block_def Let_def caught_def error401_def
      split: option.splits sum.splits prod.splits)

lemma try_block_no_session: "CallSession \<notin> set (fst (try_block env req sched))"
proof (cases "prefix_of (userId_of req) (videoId_of req) (videoType_of req)")
  case None
  then show ?thesis by (simp add: try_block_invalid)
next
  case (Some prefix)
  from try_block_trace [OF Some, of env sched] show ?thesis by auto
qed

text \<open>The construction of the client: the \<^verbatim>\<open>try\<close> block runs when it succeeds, and
  the handler rejects when it throws.\<close>

lemma s3Client_stage_constructed:
  "new_S3Client env (s3_config_of env) = Inr s3Client
     \<Longrightarrow> s3Client_stage env req sched = try_block env req sched"
  by (simp add: s3Client_stage_def)

lemma s3Client_stage_refused:
  "new_S3Client env (s3_config_of env) = Inl e
     \<Longrightarrow> s3Client_stage env req sched = ([], Uncaught e)"
  by (simp add: s3Client_stage_def)

lemma s3Client_stage_session:
  "s3Client_stage (env\<lparr>getCurrentUser := s\<rparr>) req sched = s3Client_stage env req sched"
  by (simp add: s3Client_stage_def s3_config_of_def try_block_session split: sum.splits)

lemma s3Client_stage_no_session: "CallSession \<notin> set (fst (s3Client_stage env req sched))"
  by (cases "new_S3Client env (s3_config_of env)")
     (simp_all add: s3Client_stage_def try_block_no_session)

lemma s3Client_stage_not_forbidden:
  "snd (s3Client_stage env req sched) \<noteq> Response (error401 env req ''Video is not public'')"
  by (cases "new_S3Client env (s3_config_of env)")
     (simp_all add: s3Client_stage_def try_block_not_forbidden)

text \<open>A request that passes the validation, the lookup and the visibility check goes
  on to construct the client; when the constructor returns one, the \<^verbatim>\<open>try\<close> block
  runs.\<close>

lemma GET_admitted:
  assumes "userId_of req \<noteq> ''''" and "videoId_of req \<noteq> ''''"
    and "db_select env (videoId_of req) = Inr (v # rest)"
    and "public v \<noteq> Some False
           \<or> (\<exists>u. getCurrentUser env = Inr (Some u) \<and> userId u = ownerId v)"
  shows "GET env req sched =
           ((if public v = Some False then [CallDb (videoId_of req), CallSession]
             else [CallDb (videoId_of req)]) @ fst (s3Client_stage env req sched),
            snd (s3Client_stage env req sched))"
  using assms by (auto simp: GET_def split: prod.splits)

lemma GET_region_missing:
  "GET (example_env\<lparr>CAP_AWS_REGION := None\<rparr>) (example_request ''v1'' ''screen'' '''') []
     = ([CallDb ''v1''], Uncaught ''Region is missing'')"
  by code_simp

lemma GET_passes:
  assumes "userId_of req \<noteq> ''''" and "videoId_of req \<noteq> ''''"
    and "db_select env (videoId_of req) = Inr (v # rest)"
    and "public v \<noteq> Some False
           \<or> (\<exists>u. getCurrentUser env = Inr (Some u) \<and> userId u = ownerId v)"
    and "new_S3Client env (s3_config_of env) = Inr s3Client"
  shows "GET env req sched =
           ((if public v = Some False then [CallDb (videoId_of req), CallSession]
             else [CallDb (videoId_of req)]) @ fst (try_block env req sched),
            snd (try_block env req sched))"
  using GET_admitted [OF assms(1-4), of sched] s3Client_stage_constructed [OF assms(5)]
  by simp

lemma all_Inr_map:
  "\<forall>k \<in> set keys. \<exists>c. f k = Inr c \<Longrightarrow> \<exists>cs. map f keys = map Inr cs"
proof (induction keys)
  case Nil
  then show ?case by simp
next
  case (Cons k keys)
  then obtain c cs where "f k = Inr c" "map f keys = map Inr cs" by auto
  then have "map f (k # keys) = map Inr (c # cs)" by simp
  then show ?case by blast
qed

lemma map_Inr_nth:
  assumes "map f keys = map Inr cs"
  shows "length cs = length keys \<and> (\<forall>i < length cs. f (keys ! i) = Inr (cs ! i))"
proof -
  from assms have len: "length keys = length cs" by (rule map_eq_imp_length_eq)
  have "f (keys ! i) = Inr (cs ! i)" if "i < length cs" for i
  proof -
    from that len have "f (keys ! i) = map f keys ! i" by simp
    also have "\<dots> = map Inr cs ! i" by (simp only: assms)
    also from that have "\<dots> = Inr (cs ! i)" by simp
    finally show ?thesis .
  qed
  with len show ?thesis by simp
qed

text \<open>What the trace of an admitted request contains, when the client was constructed
  and the track is valid.\<close>

lemma GET_trace:
  assumes "userId_of req \<noteq> ''''" and "videoId_of req \<noteq> ''''"
    and "db_select env (videoId_of req) = Inr (v # rest)"
    and "public v \<noteq> Some False
           \<or> (\<exists>u. getCurrentUser env = Inr (Some u) \<and> userId u = ownerId v)"
    and "new_S3Client env (s3_config_of env) = Inr s3Client"
    and "prefix_of (userId_of req) (videoId_of req) (videoType_of req) = Some prefix"
  shows "(CallList c \<in> set (fst (GET env req sched))
            \<longleftrightarrow> c = objectsCommand (bucket_of env) prefix (thumbnail_of req))"
    and "CallBuild cs \<in> set (fst (GET env req sched)) \<Longrightarrow>
           \<exists>objects.
             s3_list env (objectsCommand (bucket_of env) prefix (thumbnail_of req)) = Inr objects
             \<and> map (chunk_callback env (bucket_of env)) (map Key (contents_of objects))
                 = map Inr cs"
    and "CallSign b k n \<in> set (fst (GET env req sched)) \<Longrightarrow>
           \<exists>objects.
             s3_list env (objectsCommand (bucket_of env) prefix (thumbnail_of req)) = Inr objects
             \<and> k \<in> set (map Key (contents_of objects))"
proof -
  note g = GET_passes [OF assms(1-5), of sched]
  from try_block_trace [OF assms(6), of env sched] obtain tl where
    tl: "fst (try_block env req sched) =
           CallList (objectsCommand (bucket_of env) prefix (thumbnail_of req)) # tl"
    and nl: "\<forall>c. CallList c \<notin> set tl"
    and bd: "\<forall>cs. CallBuild cs \<in> set tl \<longrightarrow>
                (\<exists>objects.
                   s3_list env (objectsCommand (bucket_of env) prefix (thumbnail_of req))
                     = Inr objects
                   \<and> map (chunk_callback env (bucket_of env)) (map Key (contents_of objects))
                       = map Inr cs)"
    and sg: "\<forall>b k n. CallSign b k n \<in> set tl \<longrightarrow>
                (\<exists>objects.
                   s3_list env (objectsCommand (bucket_of env) prefix (thumbnail_of req))
                     = Inr objects
                   \<and> k \<in> set (map Key (contents_of objects)))"
    by blast
  from g tl nl
  show "CallList c \<in> set (fst (GET env req sched))
          \<longleftrightarrow> c = objectsCommand (bucket_of env) prefix (thumbnail_of req)"
    by auto
  assume "CallBuild cs \<in> set (fst (GET env req sched))"
  with g tl have "CallBuild cs \<in> set tl" by (auto split: if_splits)
  with bd show "\<exists>objects.
             s3_list env (objectsCommand (bucket_of env) prefix (thumbnail_of req)) = Inr objects
             \<and> map (chunk_callback env (bucket_of env)) (map Key (contents_of objects))
                 = map Inr cs"
    by blast
next
  note g = GET_passes [OF assms(1-5), of sched]
  from try_block_trace [OF assms(6), of env sched] obtain tl where
    tl: "fst (try_block env req sched) =
           CallList (objectsCommand (bucket_of env) prefix (thumbnail_of req)) # tl"
    and sg: "\<forall>b k n. CallSign b k n \<in> set tl \<longrightarrow>
                (\<exists>objects.
                   s3_list env (objectsCommand (bucket_of env) prefix (thumbnail_of req))
                     = Inr objects
                   \<and> k \<in> set (map Key (contents_of objects)))"
    by blast
  assume "CallSign b k n \<in> set (fst (GET env req sched))"
  with g tl have "CallSign b k n \<in> set tl" by (auto split: if_splits)
  with sg show "\<exists>objects.
             s3_list env (objectsCommand (bucket_of env) prefix (thumbnail_of req)) = Inr objects
             \<and> k \<in> set (map Key (contents_of objects))"
    by blast
qed

text \<open>When every callback resolves, the handler hands the chunks to the generator and
  answers with what the generator returns.\<close>

lemma GET_resolves:
  assumes "userId_of req \<noteq> ''''" and "videoId_of req \<noteq> ''''"
    and "db_select env (videoId_of req) = Inr (v # rest)"
    and "public v \<noteq> Some False
           \<or> (\<exists>u. getCurrentUser env = Inr (Some u) \<and> userId u = ownerId v)"
    and "new_S3Client env (s3_config_of env) = Inr s3Client"
    and "prefix_of (userId_of req) (videoId_of req) (videoType_of req) = Some prefix"
    and "s3_list env (objectsCommand (bucket_of env) prefix (thumbnail_of req)) = Inr objects"
    and "map (chunk_callback env (bucket_of env)) (map Key (contents_of objects)) = map Inr cs"
  shows "CallBuild cs \<in> set (fst (GET env req sched))"
    and "generateM3U8Playlist env cs = Inr playlist \<Longrightarrow>
           snd (GET env req sched) =
             Response \<lparr>status = 200, body = Text playlist,
                       headers = (''content-type'', ''application/x-mpegURL'')
                                   # corsHeaders env req\<rparr>"
proof -
  note g = GET_passes [OF assms(1-5), of sched]
  from try_block_resolves [OF assms(6-8), of sched] obtain ev where
    t: "try_block env req sched =
              (case generateM3U8Playlist env cs of
                 Inl e \<Rightarrow>
                   caught env req
                     (CallList (objectsCommand (bucket_of env) prefix (thumbnail_of req))
                        # ev @ [CallBuild cs]) e
               | Inr generatedPlaylist \<Rightarrow>
                   (CallList (objectsCommand (bucket_of env) prefix (thumbnail_of req))
                      # ev @ [CallBuild cs],
                    Response
                      \<lparr>status = 200, body = Text generatedPlaylist,
                       headers = (''content-type'', ''application/x-mpegURL'')
                                   # corsHeaders env req\<rparr>))"
    by blast
  from g t show "CallBuild cs \<in> set (fst (GET env req sched))"
    by (cases "generateM3U8Playlist env cs") (simp_all add: caught_def)
  assume "generateM3U8Playlist env cs = Inr playlist"
  with g t show "snd (GET env req sched) =
             Response \<lparr>status = 200, body = Text playlist,
                       headers = (''content-type'', ''application/x-mpegURL'')
                                   # corsHeaders env req\<rparr>"
    by simp
qed

section \<open>The claims\<close>

lemmas example_simps = example_env_def example_request_def example_stored_def
  example_render_def userId_of_def videoId_of_def videoType_of_def thumbnail_of_def
  bucket_of_def or_empty_def prefix_of_def objectsCommand_def contents_of_def

text \<open>
  C1. With the recording found and the session answering with a requester (present or
  absent), the handler lets the request through exactly when the recording's
  \<^verbatim>\<open>public\<close> flag is not \<^verbatim>\<open>false\<close> or the requester is present and its id is the
  recording's owner id. When it lets the request through, it constructs the storage
  client; it runs the \<^verbatim>\<open>try\<close> block when the constructor returns a client, and
  rejects with the constructor's error otherwise. In every other case the answer is
  the response with status 401 and message "Video is not public" (the
  specification's Forbidden error) and the only calls made are the database query
  and the session lookup: no listing, signing or metadata call.
\<close>

theorem access_iff_public_or_owner:
  assumes "userId_of req \<noteq> ''''" and "videoId_of req \<noteq> ''''"
    and "db_select env (videoId_of req) = Inr (v # rest)"
    and "getCurrentUser env = Inr usr"
  shows "(snd (GET env req sched) \<noteq>
            Response \<lparr>status = 401, body = Json ETrue ''Video is not public'',
                      headers = corsHeaders env req\<rparr>
          \<longleftrightarrow> public v \<noteq> Some False \<or> (\<exists>u. usr = Some u \<and> userId u = ownerId v))
       \<and> ((public v \<noteq> Some False \<or> (\<exists>u. usr = Some u \<and> userId u = ownerId v))
            \<and> new_S3Client env (s3_config_of env) = Inr s3Client
          \<longrightarrow> GET env req sched =
                ((if public v = Some False then [CallDb (videoId_of req), CallSession]
                  else [CallDb (videoId_of req)]) @ fst (try_block env req sched),
                 snd (try_block env req sched)))
       \<and> ((public v \<noteq> Some False \<or> (\<exists>u. usr = Some u \<and> userId u = ownerId v))
            \<and> new_S3Client env (s3_config_of env) = Inl e
          \<longrightarrow> GET env req sched =
                (if public v = Some False then [CallDb (videoId_of req), CallSession]
                 else [CallDb (videoId_of req)],
                 Uncaught e))
       \<and> (\<not> (public v \<noteq> Some False \<or> (\<exists>u. usr = Some u \<and> userId u = ownerId v))
          \<longrightarrow> GET env req sched =
                ([CallDb (videoId_of req), CallSession],
                 Response \<lparr>status = 401, body = Json ETrue ''Video is not public'',
                           headers = corsHeaders env req\<rparr>))"
proof (cases "public v \<noteq> Some False \<or> (\<exists>u. usr = Some u \<and> userId u = ownerId v)")
  case True
  with assms(4)
  have "public v \<noteq> Some False
          \<or> (\<exists>u. getCurrentUser env = Inr (Some u) \<and> userId u = ownerId v)"
    by auto
  note a = GET_admitted [OF assms(1,2,3) this, of sched]
  from a s3Client_stage_not_forbidden [of env req sched]
  have c1: "snd (GET env req sched) \<noteq>
            Response \<lparr>status = 401, body = Json ETrue ''Video is not public'',
                      headers = corsHeaders env req\<rparr>"
    by (simp add: error401_def)
  have c2: "GET env req sched =
              ((if public v = Some False then [CallDb (videoId_of req), CallSession]
                else [CallDb (videoId_of req)]) @ fst (try_block env req sched),
               snd (try_block env req sched))"
    if "new_S3Client env (s3_config_of env) = Inr s3Client"
    using a s3Client_stage_constructed [OF that, of req sched] by simp
  have c3: "GET env req sched =
              (if public v = Some False then [CallDb (videoId_of req), CallSession]
               else [CallDb (videoId_of req)],
               Uncaught e)"
    if "new_S3Client env (s3_config_of env) = Inl e"
    using a s3Client_stage_refused [OF that, of req sched] by simp
  show ?thesis
  proof (intro conjI impI)
    from True c1
    show "snd (GET env req sched) \<noteq>
            Response \<lparr>status = 401, body = Json ETrue ''Video is not public'',
                      headers = corsHeaders env req\<rparr>
          \<longleftrightarrow> public v \<noteq> Some False \<or> (\<exists>u. usr = Some u \<and> userId u = ownerId v)"
      by simp
    {
      assume "(public v \<noteq> Some False \<or> (\<exists>u. usr = Some u \<and> userId u = ownerId v))
                \<and> new_S3Client env (s3_config_of env) = Inr s3Client"
      then have "new_S3Client env (s3_config_of env) = Inr s3Client" by (rule conjunct2)
      then show "GET env req sched =
              ((if public v = Some False then [CallDb (videoId_of req), CallSession]
                else [CallDb (videoId_of req)]) @ fst (try_block env req sched),
               snd (try_block env req sched))"
        by (rule c2)
    }
    {
      assume "(public v \<noteq> Some False \<or> (\<exists>u. usr = Some u \<and> userId u = ownerId v))
                \<and> new_S3Client env (s3_config_of env) = Inl e"
      then have "new_S3Client env (s3_config_of env) = Inl e" by (rule conjunct2)
      then show "GET env req sched =
              (if public v = Some False then [CallDb (videoId_of req), CallSession]
               else [CallDb (videoId_of req)],
               Uncaught e)"
        by (rule c3)
    }
    assume "\<not> (public v \<noteq> Some False \<or> (\<exists>u. usr = Some u \<and> userId u = ownerId v))"
    with True show "GET env req sched =
                ([CallDb (videoId_of req), CallSession],
                 Response \<lparr>status = 401, body = Json ETrue ''Video is not public'',
                           headers = corsHeaders env req\<rparr>)"
      by simp
  qed
next
  case False
  with assms have "GET env req sched =
      ([CallDb (videoId_of req), CallSession],
       Response \<lparr>status = 401, body = Json ETrue ''Video is not public'',
                 headers = corsHeaders env req\<rparr>)"
    by (auto simp: GET_def error401_def split: option.splits)
  with False show ?thesis by auto
qed

text \<open>The private video \<open>v2\<close> of \<open>u1\<close>, requested while nobody is signed in, and the
  public video \<open>v1\<close>, for which the client is constructed and the \<^verbatim>\<open>try\<close> block
  runs.\<close>

theorem access_iff_public_or_owner_witness:
  "userId_of (example_request ''v2'' ''screen'' '''') \<noteq> ''''
   \<and> videoId_of (example_request ''v2'' ''screen'' '''') \<noteq> ''''
   \<and> db_select example_env (videoId_of (example_request ''v2'' ''screen'' ''''))
       = Inr [\<lparr>ownerId = ''u1'', public = Some False\<rparr>]
   \<and> getCurrentUser example_env = Inr None
   \<and> GET example_env (example_request ''v2'' ''screen'' '''') [] =
       ([CallDb ''v2'', CallSession],
        Response \<lparr>status = 401, body = Json ETrue ''Video is not public'',
                  headers = corsHeaders example_env
                              (example_request ''v2'' ''screen'' '''')\<rparr>)
   \<and> userId_of (example_request ''v1'' ''screen'' '''') \<noteq> ''''
   \<and> videoId_of (example_request ''v1'' ''screen'' '''') \<noteq> ''''
   \<and> db_select example_env (videoId_of (example_request ''v1'' ''screen'' ''''))
       = Inr [\<lparr>ownerId = ''u1'', public = Some True\<rparr>]
   \<and> new_S3Client example_env (s3_config_of example_env) = Inr ()
   \<and> GET example_env (example_request ''v1'' ''screen'' '''') [] =
       (CallDb ''v1'' # fst (try_block example_env (example_request ''v1'' ''screen'' '''') []),
        snd (try_block example_env (example_request ''v1'' ''screen'' '''') []))"
proof -
  let ?r = "example_request ''v2'' ''screen'' ''''"
  let ?p = "example_request ''v1'' ''screen'' ''''"
  have h1: "userId_of ?r \<noteq> ''''" and h2: "videoId_of ?r \<noteq> ''''"
    and h3: "db_select example_env (videoId_of ?r)
               = Inr (\<lparr>ownerId = ''u1'', public = Some False\<rparr> # [])"
    and h4: "getCurrentUser example_env = Inr None"
    and v: "videoId_of ?r = ''v2''"
    and p1: "userId_of ?p \<noteq> ''''" and p2: "videoId_of ?p \<noteq> ''''"
    and p3: "db_select example_env (videoId_of ?p)
               = Inr (\<lparr>ownerId = ''u1'', public = Some True\<rparr> # [])"
    and w: "videoId_of ?p = ''v1''"
    by (simp_all add: example_simps)
  have hc: "new_S3Client example_env (s3_config_of example_env) = Inr ()"
    by (simp add: example_simps s3_config_of_def)
  from access_iff_public_or_owner [OF h1 h2 h3 h4, where sched = "[]"] v
  have denied: "GET example_env ?r [] =
       ([CallDb ''v2'', CallSession],
        Response \<lparr>status = 401, body = Json ETrue ''Video is not public'',
                  headers = corsHeaders example_env ?r\<rparr>)"
    by simp
  from access_iff_public_or_owner [OF p1 p2 p3 h4, where sched = "[]" and ?s3Client = "()",
      THEN conjunct2, THEN conjunct1] hc w
  have admitted: "GET example_env ?p [] =
       (CallDb ''v1'' # fst (try_block example_env ?p []), snd (try_block example_env ?p []))"
    by simp
  show ?thesis by (intro conjI; fact)
qed

text \<open>
  C6. A request whose \<^verbatim>\<open>userId\<close> or \<^verbatim>\<open>videoId\<close> parameter is missing or empty is
  answered at once with status 401 and message "userId or videoId not supplied"
  (the specification's request-validation error), and the handler has called no
  collaborator: its trace is empty.
\<close>

theorem missing_ids_rejected_first:
  assumes "searchParams req ''userId'' = None \<or> searchParams req ''userId'' = Some ''''
         \<or> searchParams req ''videoId'' = None \<or> searchParams req ''videoId'' = Some ''''"
  shows "GET env req sched =
           ([], Response \<lparr>status = 401,
                           body = Json ETrue ''userId or videoId not supplied'',
                           headers = corsHeaders env req\<rparr>)"
  using assms
  by (auto simp: GET_def userId_of_def videoId_of_def or_empty_def error401_def)

text \<open>A request for \<open>v1\<close> that names no user.\<close>

theorem missing_ids_rejected_first_witness:
  "(searchParams \<lparr>origin = ''https://cap.link'', searchParams = [''videoId'' \<mapsto> ''v1'']\<rparr>
        ''userId'' = None)
   \<and> GET example_env
         \<lparr>origin = ''https://cap.link'', searchParams = [''videoId'' \<mapsto> ''v1'']\<rparr> [] =
       ([], Response \<lparr>status = 401,
                       body = Json ETrue ''userId or videoId not supplied'',
                       headers = corsHeaders example_env
                         \<lparr>origin = ''https://cap.link'',
                          searchParams = [''videoId'' \<mapsto> ''v1'']\<rparr>\<rparr>)"
  using missing_ids_rejected_first
    [of "\<lparr>origin = ''https://cap.link'', searchParams = [''videoId'' \<mapsto> ''v1'']\<rparr>"
        example_env "[]"]
  by simp

text \<open>
  C8. A recording whose \<^verbatim>\<open>public\<close> flag is anything but \<^verbatim>\<open>false\<close> (also null or
  undefined) is handled as a public one: the session is never asked, the handler's
  result is the same whatever the session would have answered (a user, nobody, or
  a failure), and the answer is not the "Video is not public" response. The request
  goes on to the construction of the storage client, and to the \<^verbatim>\<open>try\<close> block when
  the constructor returns a client; when the constructor throws, the handler
  rejects with its error.
\<close>

theorem unset_flag_treated_as_public:
  assumes "userId_of req \<noteq> ''''" and "videoId_of req \<noteq> ''''"
    and "db_select env (videoId_of req) = Inr (v # rest)"
    and "public v \<noteq> Some False"
  shows "CallSession \<notin> set (fst (GET env req sched))
       \<and> (\<forall>s. GET (env\<lparr>getCurrentUser := s\<rparr>) req sched = GET env req sched)
       \<and> (new_S3Client env (s3_config_of env) = Inr s3Client \<longrightarrow>
            GET env req sched =
              (CallDb (videoId_of req) # fst (try_block env req sched),
               snd (try_block env req sched)))
       \<and> (new_S3Client env (s3_config_of env) = Inl e \<longrightarrow>
            GET env req sched = ([CallDb (videoId_of req)], Uncaught e))
       \<and> snd (GET env req sched) \<noteq>
           Response \<lparr>status = 401, body = Json ETrue ''Video is not public'',
                     headers = corsHeaders env req\<rparr>"
proof -
  from assms(4) have p: "public v \<noteq> Some False
          \<or> (\<exists>u. getCurrentUser env = Inr (Some u) \<and> userId u = ownerId v)" by simp
  from GET_admitted [OF assms(1,2,3) p, of sched] assms(4)
  have g: "GET env req sched =
           (CallDb (videoId_of req) # fst (s3Client_stage env req sched),
            snd (s3Client_stage env req sched))" by simp
  have same: "GET (env\<lparr>getCurrentUser := s\<rparr>) req sched = GET env req sched" for s
  proof -
    from assms(3) have d: "db_select (env\<lparr>getCurrentUser := s\<rparr>) (videoId_of req)
                             = Inr (v # rest)" by simp
    from assms(4) have "public v \<noteq> Some False
          \<or> (\<exists>u. getCurrentUser (env\<lparr>getCurrentUser := s\<rparr>) = Inr (Some u)
                 \<and> userId u = ownerId v)" by simp
    from GET_admitted [OF assms(1,2) d this, of sched] assms(4) g show ?thesis
      by (simp add: s3Client_stage_session)
  qed
  from g s3Client_stage_no_session [of env req sched]
  have c1: "CallSession \<notin> set (fst (GET env req sched))" by simp
  from g s3Client_stage_not_forbidden [of env req sched]
  have c5: "snd (GET env req sched) \<noteq>
           Response \<lparr>status = 401, body = Json ETrue ''Video is not public'',
                     headers = corsHeaders env req\<rparr>"
    by (simp add: error401_def)
  show ?thesis
  proof (intro conjI allI impI)
    show "CallSession \<notin> set (fst (GET env req sched))" by (rule c1)
    show "GET (env\<lparr>getCurrentUser := s\<rparr>) req sched = GET env req sched" for s
      by (rule same)
    {
      assume "new_S3Client env (s3_config_of env) = Inr s3Client"
      from s3Client_stage_constructed [OF this, of req sched] g
      show "GET env req sched =
              (CallDb (videoId_of req) # fst (try_block env req sched),
               snd (try_block env req sched))"
        by simp
    }
    {
      assume "new_S3Client env (s3_config_of env) = Inl e"
      from s3Client_stage_refused [OF this, of req sched] g
      show "GET env req sched = ([CallDb (videoId_of req)], Uncaught e)" by simp
    }
    show "snd (GET env req sched) \<noteq>
           Response \<lparr>status = 401, body = Json ETrue ''Video is not public'',
                     headers = corsHeaders env req\<rparr>"
      by (rule c5)
  qed
qed

text \<open>The video \<open>v3\<close>, whose flag is not set, requested while nobody is signed in.\<close>

theorem unset_flag_treated_as_public_witness:
  "userId_of (example_request ''v3'' ''audio'' '''') \<noteq> ''''
   \<and> videoId_of (example_request ''v3'' ''audio'' '''') \<noteq> ''''
   \<and> db_select example_env (videoId_of (example_request ''v3'' ''audio'' ''''))
       = Inr [\<lparr>ownerId = ''u1'', public = None\<rparr>]
   \<and> public \<lparr>ownerId = ''u1'', public = None\<rparr> \<noteq> Some False
   \<and> new_S3Client example_env (s3_config_of example_env) = Inr ()
   \<and> CallSession \<notin> set (fst (GET example_env (example_request ''v3'' ''audio'' '''') []))
   \<and> GET (example_env\<lparr>getCurrentUser := Inr (Some \<lparr>userId = ''u2''\<rparr>)\<rparr>)
         (example_request ''v3'' ''audio'' '''') []
       = GET example_env (example_request ''v3'' ''audio'' '''') []
   \<and> GET example_env (example_request ''v3'' ''audio'' '''') [] =
       (CallDb (videoId_of (example_request ''v3'' ''audio'' ''''))
          # fst (try_block example_env (example_request ''v3'' ''audio'' '''') []),
        snd (try_block example_env (example_request ''v3'' ''audio'' '''') []))"
proof -
  let ?r = "example_request ''v3'' ''audio'' ''''"
  have h1: "userId_of ?r \<noteq> ''''" and h2: "videoId_of ?r \<noteq> ''''"
    and h3: "db_select example_env (videoId_of ?r)
               = Inr (\<lparr>ownerId = ''u1'', public = None\<rparr> # [])"
    and h4: "public \<lparr>ownerId = ''u1'', public = None\<rparr> \<noteq> Some False"
    by (simp_all add: example_simps)
  have hc: "new_S3Client example_env (s3_config_of example_env) = Inr ()"
    by (simp add: example_simps s3_config_of_def)
  note t = unset_flag_treated_as_public [OF h1 h2 h3 h4, where sched = "[]"
      and ?s3Client = "()"]
  note c1 = t [THEN conjunct1]
  note c2 = t [THEN conjunct2, THEN conjunct1, rule_format,
      of "Inr (Some \<lparr>userId = ''u2''\<rparr>)"]
  note c3 = t [THEN conjunct2, THEN conjunct2, THEN conjunct1, rule_format, OF hc]
  show ?thesis by (intro conjI; fact)
qed



text \<open>
  C2. For an admitted request for which the storage client was constructed, with a
  valid track and a successful listing, under
  every schedule of the signing and metadata calls: whatever list of chunks is
  handed to the playlist generator has the length of the listing, and its entry at
  position \<open>i\<close> is the chunk resolved for the key at position \<open>i\<close> of the listing.
  When every key resolves, the generator is called; and two schedules never hand
  different lists to the generator.
\<close>

theorem entries_follow_listing_order:
  assumes "userId_of req \<noteq> ''''" and "videoId_of req \<noteq> ''''"
    and "db_select env (videoId_of req) = Inr (v # rest)"
    and "public v \<noteq> Some False
           \<or> (\<exists>u. getCurrentUser env = Inr (Some u) \<and> userId u = ownerId v)"
    and "new_S3Client env (s3_config_of env) = Inr s3Client"
    and "prefix_of (userId_of req) (videoId_of req) (videoType_of req) = Some prefix"
    and "s3_list env (objectsCommand (bucket_of env) prefix (thumbnail_of req)) = Inr objects"
  shows "(\<forall>cs. CallBuild cs \<in> set (fst (GET env req sched)) \<longrightarrow>
            length cs = length (contents_of objects)
            \<and> (\<forall>i < length cs.
                  chunk_callback env (bucket_of env) (Key (contents_of objects ! i))
                    = Inr (cs ! i)))
       \<and> ((\<forall>obj \<in> set (contents_of objects).
              \<exists>c. chunk_callback env (bucket_of env) (Key obj) = Inr c)
            \<longrightarrow> (\<exists>cs. CallBuild cs \<in> set (fst (GET env req sched))))
       \<and> (\<forall>s cs ds.
            CallBuild cs \<in> set (fst (GET env req sched))
            \<and> CallBuild ds \<in> set (fst (GET env req s)) \<longrightarrow> cs = ds)"
proof (intro conjI allI impI)
  let ?f = "chunk_callback env (bucket_of env)"
  let ?keys = "map Key (contents_of objects)"
  have built: "map ?f ?keys = map Inr cs"
    if "CallBuild cs \<in> set (fst (GET env req s))" for cs s
  proof -
    from GET_trace(2) [OF assms(1-6) that] obtain objects' where
      a: "s3_list env (objectsCommand (bucket_of env) prefix (thumbnail_of req)) = Inr objects'"
      and b: "map ?f (map Key (contents_of objects')) = map Inr cs"
      by blast
    from a assms(7) have "objects' = objects" by simp
    with b show ?thesis by simp
  qed
  {
    fix cs
    assume c: "CallBuild cs \<in> set (fst (GET env req sched))"
    from map_Inr_nth [OF built [OF c]]
    have len: "length cs = length ?keys"
      and nth: "\<forall>i < length cs. ?f (?keys ! i) = Inr (cs ! i)" by blast+
    from len show "length cs = length (contents_of objects)" by simp
    fix i
    assume i: "i < length cs"
    with len have "?keys ! i = Key (contents_of objects ! i)" by simp
    moreover from nth i have "?f (?keys ! i) = Inr (cs ! i)" by blast
    ultimately show "?f (Key (contents_of objects ! i)) = Inr (cs ! i)" by simp
  }
  {
    assume "\<forall>obj \<in> set (contents_of objects). \<exists>c. ?f (Key obj) = Inr c"
    then have "\<forall>k \<in> set ?keys. \<exists>c. ?f k = Inr c" by simp
    from all_Inr_map [OF this] obtain cs where "map ?f ?keys = map Inr cs" by blast
    from GET_resolves(1) [OF assms this]
    show "\<exists>cs. CallBuild cs \<in> set (fst (GET env req sched))" by blast
  }
  {
    fix s cs ds
    assume "CallBuild cs \<in> set (fst (GET env req sched))
              \<and> CallBuild ds \<in> set (fst (GET env req s))"
    then have c: "CallBuild cs \<in> set (fst (GET env req sched))"
      and d: "CallBuild ds \<in> set (fst (GET env req s))" by simp_all
    from built [OF c] built [OF d]
    have "map Inr cs = (map Inr ds :: ('a + chunk) list)" by simp
    then show "cs = ds" by simp
  }
qed

text \<open>The three segments of the screen track of \<open>v1\<close>, with the third callback
  settling first: the generator gets the chunks of \<open>s1\<close>, \<open>s2\<close>, \<open>s3\<close> in this
  order.\<close>

theorem entries_follow_listing_order_witness:
  "userId_of (example_request ''v1'' ''screen'' '''') \<noteq> ''''
   \<and> videoId_of (example_request ''v1'' ''screen'' '''') \<noteq> ''''
   \<and> db_select example_env (videoId_of (example_request ''v1'' ''screen'' ''''))
       = Inr [\<lparr>ownerId = ''u1'', public = Some True\<rparr>]
   \<and> public \<lparr>ownerId = ''u1'', public = Some True\<rparr> \<noteq> Some False
   \<and> new_S3Client example_env (s3_config_of example_env) = Inr ()
   \<and> prefix_of (userId_of (example_request ''v1'' ''screen'' ''''))
        (videoId_of (example_request ''v1'' ''screen'' ''''))
        (videoType_of (example_request ''v1'' ''screen'' '''')) = Some ''u1/v1/screen/''
   \<and> s3_list example_env
        (objectsCommand (bucket_of example_env) ''u1/v1/screen/''
           (thumbnail_of (example_request ''v1'' ''screen'' '''')))
       = Inr \<lparr>Contents = Some example_stored\<rparr>
   \<and> CallBuild [\<lparr>url = ''https://s3/s1'', duration = ''4.0''\<rparr>,
                \<lparr>url = ''https://s3/s2'', duration = ''''\<rparr>,
                \<lparr>url = ''https://s3/s3'', duration = ''5.5''\<rparr>]
       \<in> set (fst (GET example_env (example_request ''v1'' ''screen'' '''') [2, 0, 1, 1]))
   \<and> length [\<lparr>url = ''https://s3/s1'', duration = ''4.0''\<rparr>,
               \<lparr>url = ''https://s3/s2'', duration = ''''\<rparr>,
               \<lparr>url = ''https://s3/s3'', duration = ''5.5''\<rparr>]
       = length (contents_of \<lparr>Contents = Some example_stored\<rparr>)
   \<and> chunk_callback example_env (bucket_of example_env)
        (Key (contents_of \<lparr>Contents = Some example_stored\<rparr> ! 2))
       = Inr ([\<lparr>url = ''https://s3/s1'', duration = ''4.0''\<rparr>,
               \<lparr>url = ''https://s3/s2'', duration = ''''\<rparr>,
               \<lparr>url = ''https://s3/s3'', duration = ''5.5''\<rparr>] ! 2)"
proof -
  have hc: "new_S3Client example_env (s3_config_of example_env) = Inr ()"
    by (simp add: example_simps s3_config_of_def)
  let ?r = "example_request ''v1'' ''screen'' ''''"
  let ?cs = "[\<lparr>url = ''https://s3/s1'', duration = ''4.0''\<rparr>,
              \<lparr>url = ''https://s3/s2'', duration = ''''\<rparr>,
              \<lparr>url = ''https://s3/s3'', duration = ''5.5''\<rparr>]"
  have h1: "userId_of ?r \<noteq> ''''" and h2: "videoId_of ?r \<noteq> ''''"
    and h3: "db_select example_env (videoId_of ?r)
               = Inr (\<lparr>ownerId = ''u1'', public = Some True\<rparr> # [])"
    and h4: "public \<lparr>ownerId = ''u1'', public = Some True\<rparr> \<noteq> Some False
               \<or> (\<exists>u. getCurrentUser example_env = Inr (Some u)
                      \<and> userId u = ownerId \<lparr>ownerId = ''u1'', public = Some True\<rparr>)"
    and h5: "prefix_of (userId_of ?r) (videoId_of ?r) (videoType_of ?r) = Some ''u1/v1/screen/''"
    and h6: "s3_list example_env
               (objectsCommand (bucket_of example_env) ''u1/v1/screen/'' (thumbnail_of ?r))
              = Inr \<lparr>Contents = Some example_stored\<rparr>"
    by (simp_all add: example_simps)
  have run: "CallBuild ?cs \<in> set (fst (GET example_env ?r [2, 0, 1, 1]))"
    by code_simp
  note t = entries_follow_listing_order [OF h1 h2 h3 h4 hc h5 h6, where sched = "[2, 0, 1, 1]"]
  note u = t [THEN conjunct1, rule_format, OF run]
  note len = u [THEN conjunct1]
  have "(2::nat) < length ?cs" by simp
  note third = u [THEN conjunct2, rule_format, OF this]
  have h4': "public \<lparr>ownerId = ''u1'', public = Some True\<rparr> \<noteq> Some False" by simp
  show ?thesis by (intro conjI; fact)
qed

text \<open>
  C3. For an admitted request for which the storage client was constructed, with a
  valid track and a successful listing: when the
  signing call or the metadata call of one listed key fails, then under every
  schedule the handler answers with status 500 and message "Error generating video
  URLs", carrying the value one of the callbacks was rejected with; that value is
  logged as the last step; and the playlist generator is never called, so no
  playlist, partial or whole, exists.
\<close>

theorem one_failure_fails_all:
  assumes "userId_of req \<noteq> ''''" and "videoId_of req \<noteq> ''''"
    and "db_select env (videoId_of req) = Inr (v # rest)"
    and "public v \<noteq> Some False
           \<or> (\<exists>u. getCurrentUser env = Inr (Some u) \<and> userId u = ownerId v)"
    and "new_S3Client env (s3_config_of env) = Inr s3Client"
    and "prefix_of (userId_of req) (videoId_of req) (videoType_of req) = Some prefix"
    and "s3_list env (objectsCommand (bucket_of env) prefix (thumbnail_of req)) = Inr objects"
    and "obj \<in> set (contents_of objects)"
    and "(\<exists>e. getSignedUrl env (bucket_of env) (Key obj) 3600 = Inl e)
           \<or> (\<exists>e. s3_head env (bucket_of env) (Key obj) = Inl e)"
  shows "(\<exists>e. snd (GET env req sched) =
                Response \<lparr>status = 500,
                          body = Json (EValue e) ''Error generating video URLs'',
                          headers = corsHeaders env req\<rparr>
              \<and> last (fst (GET env req sched)) = LogError e
              \<and> (\<exists>k \<in> set (map Key (contents_of objects)).
                    chunk_callback env (bucket_of env) k = Inl e))
       \<and> (\<forall>cs. CallBuild cs \<notin> set (fst (GET env req sched)))"
proof -
  have "\<exists>e0. chunk_callback env (bucket_of env) (Key obj) = Inl e0"
  proof (cases "getSignedUrl env (bucket_of env) (Key obj) 3600")
    case (Inl e)
    then show ?thesis by (simp add: chunk_callback_def)
  next
    case (Inr u)
    with assms(9) obtain e where "s3_head env (bucket_of env) (Key obj) = Inl e" by auto
    with Inr show ?thesis by (simp add: chunk_callback_def)
  qed
  then obtain e0 where "chunk_callback env (bucket_of env) (Key obj) = Inl e0" by blast
  moreover from assms(8) have "Key obj \<in> set (map Key (contents_of objects))" by simp
  ultimately obtain ev e where
    ke: "list_all (key_event (bucket_of env) (set (map Key (contents_of objects)))) ev"
    and k: "\<exists>k' \<in> set (map Key (contents_of objects)).
              chunk_callback env (bucket_of env) k' = Inl e"
    and t: "try_block env req sched =
              caught env req
                (CallList (objectsCommand (bucket_of env) prefix (thumbnail_of req)) # ev) e"
    using try_block_rejects [OF assms(6,7), of "Key obj" e0 sched] by blast
  note g = GET_passes [OF assms(1-5), of sched]
  from g t have "snd (GET env req sched) =
                Response \<lparr>status = 500,
                          body = Json (EValue e) ''Error generating video URLs'',
                          headers = corsHeaders env req\<rparr>"
    and "last (fst (GET env req sched)) = LogError e"
    by (simp_all add: caught_def)
  moreover from g t key_events_no_build [OF ke]
  have "\<forall>cs. CallBuild cs \<notin> set (fst (GET env req sched))"
    by (auto simp: caught_def)
  ultimately show ?thesis using k by blast
qed

text \<open>The video track of \<open>v1\<close>: the metadata of its second segment cannot be
  fetched.\<close>

theorem one_failure_fails_all_witness:
  "userId_of (example_request ''v1'' ''video'' '''') \<noteq> ''''
   \<and> videoId_of (example_request ''v1'' ''video'' '''') \<noteq> ''''
   \<and> db_select example_env (videoId_of (example_request ''v1'' ''video'' ''''))
       = Inr [\<lparr>ownerId = ''u1'', public = Some True\<rparr>]
   \<and> public \<lparr>ownerId = ''u1'', public = Some True\<rparr> \<noteq> Some False
   \<and> new_S3Client example_env (s3_config_of example_env) = Inr ()
   \<and> prefix_of (userId_of (example_request ''v1'' ''video'' ''''))
        (videoId_of (example_request ''v1'' ''video'' ''''))
        (videoType_of (example_request ''v1'' ''video'' '''')) = Some ''u1/v1/video/''
   \<and> s3_list example_env
        (objectsCommand (bucket_of example_env) ''u1/v1/video/''
           (thumbnail_of (example_request ''v1'' ''video'' '''')))
       = Inr \<lparr>Contents = Some [\<lparr>Key = ''s1''\<rparr>, \<lparr>Key = ''bad''\<rparr>]\<rparr>
   \<and> s3_head example_env (bucket_of example_env) ''bad'' = Inl ''NotFound''
   \<and> snd (GET example_env (example_request ''v1'' ''video'' '''') [1, 0]) =
       Response \<lparr>status = 500,
                 body = Json (EValue ''NotFound'') ''Error generating video URLs'',
                 headers = corsHeaders example_env (example_request ''v1'' ''video'' '''')\<rparr>
   \<and> (\<forall>cs. CallBuild cs
               \<notin> set (fst (GET example_env (example_request ''v1'' ''video'' '''') [1, 0])))"
proof -
  have hc: "new_S3Client example_env (s3_config_of example_env) = Inr ()"
    by (simp add: example_simps s3_config_of_def)
  let ?r = "example_request ''v1'' ''video'' ''''"
  let ?objects = "\<lparr>Contents = Some [\<lparr>Key = ''s1''\<rparr>, \<lparr>Key = ''bad''\<rparr>]\<rparr>"
  have h1: "userId_of ?r \<noteq> ''''" and h2: "videoId_of ?r \<noteq> ''''"
    and h3: "db_select example_env (videoId_of ?r)
               = Inr (\<lparr>ownerId = ''u1'', public = Some True\<rparr> # [])"
    and h4: "public \<lparr>ownerId = ''u1'', public = Some True\<rparr> \<noteq> Some False
               \<or> (\<exists>u. getCurrentUser example_env = Inr (Some u)
                      \<and> userId u = ownerId \<lparr>ownerId = ''u1'', public = Some True\<rparr>)"
    and h5: "prefix_of (userId_of ?r) (videoId_of ?r) (videoType_of ?r) = Some ''u1/v1/video/''"
    and h6: "s3_list example_env
               (objectsCommand (bucket_of example_env) ''u1/v1/video/'' (thumbnail_of ?r))
              = Inr ?objects"
    and h7: "\<lparr>Key = ''bad''\<rparr> \<in> set (contents_of ?objects)"
    and h8: "(\<exists>e. getSignedUrl example_env (bucket_of example_env) (Key \<lparr>Key = ''bad''\<rparr>) 3600
                    = Inl e)
               \<or> (\<exists>e. s3_head example_env (bucket_of example_env) (Key \<lparr>Key = ''bad''\<rparr>)
                    = Inl e)"
    and h9: "s3_head example_env (bucket_of example_env) ''bad'' = Inl ''NotFound''"
    by (simp_all add: example_simps)
  have only: "e = ''NotFound''"
    if "\<exists>k \<in> set (map Key (contents_of ?objects)).
          chunk_callback example_env (bucket_of example_env) k = Inl e" for e
    using that by (auto simp: example_simps chunk_callback_def)
  note t = one_failure_fails_all [OF h1 h2 h3 h4 hc h5 h6 h7 h8, where sched = "[1, 0]"]
  from t [THEN conjunct1] obtain e where
    a: "snd (GET example_env ?r [1, 0]) =
          Response \<lparr>status = 500, body = Json (EValue e) ''Error generating video URLs'',
                    headers = corsHeaders example_env ?r\<rparr>"
    and b: "\<exists>k \<in> set (map Key (contents_of ?objects)).
              chunk_callback example_env (bucket_of example_env) k = Inl e"
    by blast
  from only [OF b] a
  have c: "snd (GET example_env ?r [1, 0]) =
       Response \<lparr>status = 500,
                 body = Json (EValue ''NotFound'') ''Error generating video URLs'',
                 headers = corsHeaders example_env ?r\<rparr>"
    by simp
  note d = t [THEN conjunct2]
  have h4': "public \<lparr>ownerId = ''u1'', public = Some True\<rparr> \<noteq> Some False" by simp
  show ?thesis by (intro conjI; fact)
qed

text \<open>
  C4. Take an admitted request for which the storage client was constructed, with a
  valid track and a successful listing, all of
  whose signing and metadata calls succeed. Under every schedule the handler hands
  to the playlist generator one chunk per listed key, in listing order, with the
  signed URL and with the \<^verbatim>\<open>duration\<close> entry of the key's metadata, or with the empty
  string when the metadata has no such entry: a missing duration is no failure.
  With the generator of the specification, the answer has status 200 and its text
  renders one entry per listed key; the entry of a key without a duration has the
  duration 0, and the entry of a key with a duration (a string that is not empty)
  has that duration.
\<close>

theorem missing_duration_falls_back:
  fixes sign :: "string \<Rightarrow> string" and md :: "string \<Rightarrow> head_output"
  defines "resolved \<equiv> \<lambda>obj.
             \<lparr>url = sign (Key obj),
              duration = (case duration_field (md (Key obj)) of None \<Rightarrow> '''' | Some d \<Rightarrow> d)\<rparr>"
  assumes "userId_of req \<noteq> ''''" and "videoId_of req \<noteq> ''''"
    and "db_select env (videoId_of req) = Inr (v # rest)"
    and "public v \<noteq> Some False
           \<or> (\<exists>u. getCurrentUser env = Inr (Some u) \<and> userId u = ownerId v)"
    and "new_S3Client env (s3_config_of env) = Inr s3Client"
    and "prefix_of (userId_of req) (videoId_of req) (videoType_of req) = Some prefix"
    and "s3_list env (objectsCommand (bucket_of env) prefix (thumbnail_of req)) = Inr objects"
    and "\<forall>obj \<in> set (contents_of objects).
           getSignedUrl env (bucket_of env) (Key obj) 3600 = Inr (sign (Key obj))"
    and "\<forall>obj \<in> set (contents_of objects).
           s3_head env (bucket_of env) (Key obj) = Inr (md (Key obj))"
    and "generateM3U8Playlist env = generateM3U8Playlist_spec render"
  shows "CallBuild (map resolved (contents_of objects)) \<in> set (fst (GET env req sched))
       \<and> snd (GET env req sched) =
           Response \<lparr>status = 200,
                     body = Text (render (manifest_entries (map resolved (contents_of objects)))),
                     headers = (''content-type'', ''application/x-mpegURL'')
                                 # corsHeaders env req\<rparr>
       \<and> length (manifest_entries (map resolved (contents_of objects)))
           = length (contents_of objects)
       \<and> (\<forall>i < length (contents_of objects).
            fst (manifest_entries (map resolved (contents_of objects)) ! i)
              = sign (Key (contents_of objects ! i))
            \<and> (duration_field (md (Key (contents_of objects ! i))) = None \<longrightarrow>
                 duration (resolved (contents_of objects ! i)) = ''''
                 \<and> snd (manifest_entries (map resolved (contents_of objects)) ! i) = ''0'')
            \<and> (\<forall>d. duration_field (md (Key (contents_of objects ! i))) = Some d \<and> d \<noteq> ''''
                 \<longrightarrow> duration (resolved (contents_of objects ! i)) = d
                     \<and> snd (manifest_entries (map resolved (contents_of objects)) ! i) = d))"
proof -
  let ?cs = "map resolved (contents_of objects)"
  from assms(9,10)
  have m: "map (chunk_callback env (bucket_of env)) (map Key (contents_of objects))
             = map Inr ?cs"
    by (simp add: chunk_callback_def chunk_of_def resolved_def)
  from assms(11) have b: "generateM3U8Playlist env ?cs = Inr (render (manifest_entries ?cs))"
    by (simp add: generateM3U8Playlist_spec_def)
  note r = GET_resolves [OF assms(2-8) m, where sched = sched]
  have "length (manifest_entries ?cs) = length (contents_of objects)"
    by (simp add: manifest_entries_def)
  moreover have "\<forall>i < length (contents_of objects).
            fst (manifest_entries ?cs ! i) = sign (Key (contents_of objects ! i))
            \<and> (duration_field (md (Key (contents_of objects ! i))) = None \<longrightarrow>
                 duration (resolved (contents_of objects ! i)) = ''''
                 \<and> snd (manifest_entries ?cs ! i) = ''0'')
            \<and> (\<forall>d. duration_field (md (Key (contents_of objects ! i))) = Some d \<and> d \<noteq> ''''
                 \<longrightarrow> duration (resolved (contents_of objects ! i)) = d
                     \<and> snd (manifest_entries ?cs ! i) = d)"
    by (simp add: manifest_entries_def resolved_def)
  ultimately show ?thesis using r(1) r(2) [OF b] by simp
qed

text \<open>The screen track of \<open>v1\<close>: the metadata of \<open>s2\<close> has no duration.\<close>

theorem missing_duration_falls_back_witness:
  "userId_of (example_request ''v1'' ''screen'' '''') \<noteq> ''''
   \<and> videoId_of (example_request ''v1'' ''screen'' '''') \<noteq> ''''
   \<and> db_select example_env (videoId_of (example_request ''v1'' ''screen'' ''''))
       = Inr [\<lparr>ownerId = ''u1'', public = Some True\<rparr>]
   \<and> public \<lparr>ownerId = ''u1'', public = Some True\<rparr> \<noteq> Some False
   \<and> new_S3Client example_env (s3_config_of example_env) = Inr ()
   \<and> prefix_of (userId_of (example_request ''v1'' ''screen'' ''''))
        (videoId_of (example_request ''v1'' ''screen'' ''''))
        (videoType_of (example_request ''v1'' ''screen'' '''')) = Some ''u1/v1/screen/''
   \<and> s3_list example_env
        (objectsCommand (bucket_of example_env) ''u1/v1/screen/''
           (thumbnail_of (example_request ''v1'' ''screen'' '''')))
       = Inr \<lparr>Contents = Some example_stored\<rparr>
   \<and> s3_head example_env (bucket_of example_env) ''s2'' = Inr \<lparr>Metadata = Some Map.empty\<rparr>
   \<and> duration_field \<lparr>Metadata = Some Map.empty\<rparr> = None
   \<and> generateM3U8Playlist example_env = generateM3U8Playlist_spec example_render
   \<and> CallBuild [\<lparr>url = ''https://s3/s1'', duration = ''4.0''\<rparr>,
                \<lparr>url = ''https://s3/s2'', duration = ''''\<rparr>,
                \<lparr>url = ''https://s3/s3'', duration = ''5.5''\<rparr>]
       \<in> set (fst (GET example_env (example_request ''v1'' ''screen'' '''') [1, 2, 0]))
   \<and> manifest_entries [\<lparr>url = ''https://s3/s1'', duration = ''4.0''\<rparr>,
                        \<lparr>url = ''https://s3/s2'', duration = ''''\<rparr>,
                        \<lparr>url = ''https://s3/s3'', duration = ''5.5''\<rparr>]
       = [(''https://s3/s1'', ''4.0''), (''https://s3/s2'', ''0''), (''https://s3/s3'', ''5.5'')]
   \<and> snd (GET example_env (example_request ''v1'' ''screen'' '''') [1, 2, 0]) =
       Response
         \<lparr>status = 200,
          body = Text ''#EXTINF:4.0,https://s3/s1;#EXTINF:0,https://s3/s2;#EXTINF:5.5,https://s3/s3;'',
          headers = (''content-type'', ''application/x-mpegURL'')
                      # corsHeaders example_env (example_request ''v1'' ''screen'' '''')\<rparr>"
proof -
  have hc: "new_S3Client example_env (s3_config_of example_env) = Inr ()"
    by (simp add: example_simps s3_config_of_def)
  let ?r = "example_request ''v1'' ''screen'' ''''"
  let ?sign = "\<lambda>k. ''https://s3/'' @ k"
  let ?md = "\<lambda>k. if k = ''s1'' then \<lparr>Metadata = Some [''duration'' \<mapsto> ''4.0'']\<rparr>
                  else if k = ''s2'' then \<lparr>Metadata = Some Map.empty\<rparr>
                  else \<lparr>Metadata = Some [''duration'' \<mapsto> ''5.5'']\<rparr>"
  let ?cs = "[\<lparr>url = ''https://s3/s1'', duration = ''4.0''\<rparr>,
              \<lparr>url = ''https://s3/s2'', duration = ''''\<rparr>,
              \<lparr>url = ''https://s3/s3'', duration = ''5.5''\<rparr>]"
  have h1: "userId_of ?r \<noteq> ''''" and h2: "videoId_of ?r \<noteq> ''''"
    and h3: "db_select example_env (videoId_of ?r)
               = Inr (\<lparr>ownerId = ''u1'', public = Some True\<rparr> # [])"
    and h4: "public \<lparr>ownerId = ''u1'', public = Some True\<rparr> \<noteq> Some False
               \<or> (\<exists>u. getCurrentUser example_env = Inr (Some u)
                      \<and> userId u = ownerId \<lparr>ownerId = ''u1'', public = Some True\<rparr>)"
    and h5: "prefix_of (userId_of ?r) (videoId_of ?r) (videoType_of ?r) = Some ''u1/v1/screen/''"
    and h6: "s3_list example_env
               (objectsCommand (bucket_of example_env) ''u1/v1/screen/'' (thumbnail_of ?r))
              = Inr \<lparr>Contents = Some example_stored\<rparr>"
    and h7: "\<forall>obj \<in> set (contents_of \<lparr>Contents = Some example_stored\<rparr>).
               getSignedUrl example_env (bucket_of example_env) (Key obj) 3600
                 = Inr (?sign (Key obj))"
    and h8: "\<forall>obj \<in> set (contents_of \<lparr>Contents = Some example_stored\<rparr>).
               s3_head example_env (bucket_of example_env) (Key obj) = Inr (?md (Key obj))"
    and h9: "generateM3U8Playlist example_env = generateM3U8Playlist_spec example_render"
    and a1: "s3_head example_env (bucket_of example_env) ''s2''
               = Inr \<lparr>Metadata = Some Map.empty\<rparr>"
    and a2: "duration_field \<lparr>Metadata = Some Map.empty\<rparr> = None"
    by (simp_all add: example_simps duration_field_def)
  have cs: "map (\<lambda>obj. \<lparr>url = ?sign (Key obj),
                        duration = (case duration_field (?md (Key obj)) of
                                      None \<Rightarrow> '''' | Some d \<Rightarrow> d)\<rparr>)
              (contents_of \<lparr>Contents = Some example_stored\<rparr>) = ?cs"
    by (simp add: example_simps duration_field_def)
  have me: "manifest_entries ?cs =
      [(''https://s3/s1'', ''4.0''), (''https://s3/s2'', ''0''), (''https://s3/s3'', ''5.5'')]"
    by (simp add: manifest_entries_def)
  have re: "example_render
      [(''https://s3/s1'', ''4.0''), (''https://s3/s2'', ''0''), (''https://s3/s3'', ''5.5'')]
      = ''#EXTINF:4.0,https://s3/s1;#EXTINF:0,https://s3/s2;#EXTINF:5.5,https://s3/s3;''"
    by (simp add: example_render_def)
  note t = missing_duration_falls_back [OF h1 h2 h3 h4 hc h5 h6 h7 h8 h9,
      where sched = "[1, 2, 0]", unfolded cs me re]
  note c1 = t [THEN conjunct1]
  note c2 = t [THEN conjunct2, THEN conjunct1]
  have h4': "public \<lparr>ownerId = ''u1'', public = Some True\<rparr> \<noteq> Some False" by simp
  show ?thesis by (intro conjI; fact)
qed

text \<open>
  C5. Take an admitted request for which the storage client was constructed, with a
  valid track, and a store that holds the keys
  \<open>first # others\<close> under the track's prefix: listed without a cap it returns all of
  them, listed with the cap 1 it returns the first one only. Every stored key
  resolves. With a thumbnail parameter that is not empty, the one listing command
  the handler issues has \<^verbatim>\<open>MaxKeys\<close> 1, URLs are signed for the first key only,
  the playlist generator gets exactly one chunk, the one of the first key, and the
  answer is the generator's text for it, however many keys are stored. With the
  parameter absent or empty, the listing command has no cap and the generator gets
  one chunk per stored key.
\<close>

theorem thumbnail_caps_listing_at_one:
  assumes "userId_of req \<noteq> ''''" and "videoId_of req \<noteq> ''''"
    and "db_select env (videoId_of req) = Inr (v # rest)"
    and "public v \<noteq> Some False
           \<or> (\<exists>u. getCurrentUser env = Inr (Some u) \<and> userId u = ownerId v)"
    and "new_S3Client env (s3_config_of env) = Inr s3Client"
    and "prefix_of (userId_of req) (videoId_of req) (videoType_of req) = Some prefix"
    and "s3_list env \<lparr>Bucket = bucket_of env, Prefix = prefix, MaxKeys = None\<rparr>
           = Inr uncapped"
    and "contents_of uncapped = first # others"
    and "s3_list env \<lparr>Bucket = bucket_of env, Prefix = prefix, MaxKeys = Some 1\<rparr>
           = Inr capped"
    and "contents_of capped = [first]"
    and "\<forall>obj \<in> set (first # others). \<exists>c. chunk_callback env (bucket_of env) (Key obj) = Inr c"
  shows "(thumbnail_of req \<noteq> '''' \<longrightarrow>
            (\<forall>cmd. CallList cmd \<in> set (fst (GET env req sched)) \<longleftrightarrow>
                 cmd = \<lparr>Bucket = bucket_of env, Prefix = prefix, MaxKeys = Some 1\<rparr>)
          \<and> (\<forall>b k n. CallSign b k n \<in> set (fst (GET env req sched)) \<longrightarrow> k = Key first)
          \<and> (\<exists>c. chunk_callback env (bucket_of env) (Key first) = Inr c
                 \<and> CallBuild [c] \<in> set (fst (GET env req sched))
                 \<and> (\<forall>playlist. generateM3U8Playlist env [c] = Inr playlist \<longrightarrow>
                       snd (GET env req sched) =
                         Response \<lparr>status = 200, body = Text playlist,
                                   headers = (''content-type'', ''application/x-mpegURL'')
                                               # corsHeaders env req\<rparr>))
          \<and> (\<forall>cs. CallBuild cs \<in> set (fst (GET env req sched)) \<longrightarrow> length cs = 1))
       \<and> (thumbnail_of req = '''' \<longrightarrow>
            (\<forall>cmd. CallList cmd \<in> set (fst (GET env req sched)) \<longleftrightarrow>
                 cmd = \<lparr>Bucket = bucket_of env, Prefix = prefix, MaxKeys = None\<rparr>)
          \<and> (\<exists>cs. CallBuild cs \<in> set (fst (GET env req sched)))
          \<and> (\<forall>cs. CallBuild cs \<in> set (fst (GET env req sched)) \<longrightarrow>
                 length cs = length (first # others)))"
proof (intro conjI impI)
  let ?f = "chunk_callback env (bucket_of env)"
  note reach = assms(1-6)
  {
    assume th: "thumbnail_of req \<noteq> ''''"
    then have cmd: "objectsCommand (bucket_of env) prefix (thumbnail_of req) =
                      \<lparr>Bucket = bucket_of env, Prefix = prefix, MaxKeys = Some 1\<rparr>"
      by (simp add: objectsCommand_def)
    with assms(9)
    have l: "s3_list env (objectsCommand (bucket_of env) prefix (thumbnail_of req)) = Inr capped"
      by simp
    from GET_trace(1) [OF reach, of _ sched] cmd
    show "\<forall>cmd. CallList cmd \<in> set (fst (GET env req sched)) \<longleftrightarrow>
                 cmd = \<lparr>Bucket = bucket_of env, Prefix = prefix, MaxKeys = Some 1\<rparr>"
      by simp
    show "\<forall>b k n. CallSign b k n \<in> set (fst (GET env req sched)) \<longrightarrow> k = Key first"
    proof (intro allI impI)
      fix b k n
      assume "CallSign b k n \<in> set (fst (GET env req sched))"
      from GET_trace(3) [OF reach this] l assms(10) show "k = Key first" by auto
    qed
    from assms(11) obtain c where c: "?f (Key first) = Inr c" by auto
    with assms(10) have m: "map ?f (map Key (contents_of capped)) = map Inr [c]" by simp
    from GET_resolves [OF reach l m, where sched = sched] c
    show "\<exists>c. ?f (Key first) = Inr c
             \<and> CallBuild [c] \<in> set (fst (GET env req sched))
             \<and> (\<forall>playlist. generateM3U8Playlist env [c] = Inr playlist \<longrightarrow>
                   snd (GET env req sched) =
                     Response \<lparr>status = 200, body = Text playlist,
                               headers = (''content-type'', ''application/x-mpegURL'')
                                           # corsHeaders env req\<rparr>)"
      by blast
    show "\<forall>cs. CallBuild cs \<in> set (fst (GET env req sched)) \<longrightarrow> length cs = 1"
    proof (intro allI impI)
      fix cs
      assume "CallBuild cs \<in> set (fst (GET env req sched))"
      from GET_trace(2) [OF reach this] l
      have "map ?f (map Key (contents_of capped)) = map Inr cs" by auto
      from map_Inr_nth [OF this] assms(10) show "length cs = 1" by simp
    qed
  }
  {
    assume th: "thumbnail_of req = ''''"
    then have cmd: "objectsCommand (bucket_of env) prefix (thumbnail_of req) =
                      \<lparr>Bucket = bucket_of env, Prefix = prefix, MaxKeys = None\<rparr>"
      by (simp add: objectsCommand_def)
    with assms(7)
    have l: "s3_list env (objectsCommand (bucket_of env) prefix (thumbnail_of req))
               = Inr uncapped"
      by simp
    from GET_trace(1) [OF reach, of _ sched] cmd
    show "\<forall>cmd. CallList cmd \<in> set (fst (GET env req sched)) \<longleftrightarrow>
                 cmd = \<lparr>Bucket = bucket_of env, Prefix = prefix, MaxKeys = None\<rparr>"
      by simp
    from assms(8,11) have "\<forall>k \<in> set (map Key (contents_of uncapped)). \<exists>c. ?f k = Inr c"
      by simp
    from all_Inr_map [OF this] obtain cs where
      "map ?f (map Key (contents_of uncapped)) = map Inr cs" by blast
    from GET_resolves(1) [OF reach l this]
    show "\<exists>cs. CallBuild cs \<in> set (fst (GET env req sched))" by blast
    show "\<forall>cs. CallBuild cs \<in> set (fst (GET env req sched)) \<longrightarrow>
            length cs = length (first # others)"
    proof (intro allI impI)
      fix cs
      assume "CallBuild cs \<in> set (fst (GET env req sched))"
      from GET_trace(2) [OF reach this] l
      have "map ?f (map Key (contents_of uncapped)) = map Inr cs" by auto
      from map_Inr_nth [OF this] assms(8) show "length cs = length (first # others)" by simp
    qed
  }
qed

text \<open>The screen track of \<open>v1\<close>, with three stored segments, requested with
  \<^verbatim>\<open>thumbnail=1\<close>.\<close>

theorem thumbnail_caps_listing_at_one_witness:
  "userId_of (example_request ''v1'' ''screen'' ''1'') \<noteq> ''''
   \<and> videoId_of (example_request ''v1'' ''screen'' ''1'') \<noteq> ''''
   \<and> db_select example_env (videoId_of (example_request ''v1'' ''screen'' ''1''))
       = Inr [\<lparr>ownerId = ''u1'', public = Some True\<rparr>]
   \<and> public \<lparr>ownerId = ''u1'', public = Some True\<rparr> \<noteq> Some False
   \<and> new_S3Client example_env (s3_config_of example_env) = Inr ()
   \<and> prefix_of (userId_of (example_request ''v1'' ''screen'' ''1''))
        (videoId_of (example_request ''v1'' ''screen'' ''1''))
        (videoType_of (example_request ''v1'' ''screen'' ''1'')) = Some ''u1/v1/screen/''
   \<and> s3_list example_env
        \<lparr>Bucket = bucket_of example_env, Prefix = ''u1/v1/screen/'', MaxKeys = None\<rparr>
       = Inr \<lparr>Contents = Some [\<lparr>Key = ''s1''\<rparr>, \<lparr>Key = ''s2''\<rparr>, \<lparr>Key = ''s3''\<rparr>]\<rparr>
   \<and> s3_list example_env
        \<lparr>Bucket = bucket_of example_env, Prefix = ''u1/v1/screen/'', MaxKeys = Some 1\<rparr>
       = Inr \<lparr>Contents = Some [\<lparr>Key = ''s1''\<rparr>]\<rparr>
   \<and> thumbnail_of (example_request ''v1'' ''screen'' ''1'') \<noteq> ''''
   \<and> CallBuild [\<lparr>url = ''https://s3/s1'', duration = ''4.0''\<rparr>]
       \<in> set (fst (GET example_env (example_request ''v1'' ''screen'' ''1'') []))
   \<and> fst (GET example_env (example_request ''v1'' ''screen'' ''1'') []) =
       [CallDb ''v1'',
        CallList \<lparr>Bucket = ''capso'', Prefix = ''u1/v1/screen/'', MaxKeys = Some 1\<rparr>,
        CallSign ''capso'' ''s1'' 3600, CallHead ''capso'' ''s1'',
        CallBuild [\<lparr>url = ''https://s3/s1'', duration = ''4.0''\<rparr>]]"
proof -
  have hc: "new_S3Client example_env (s3_config_of example_env) = Inr ()"
    by (simp add: example_simps s3_config_of_def)
  let ?r = "example_request ''v1'' ''screen'' ''1''"
  let ?unc = "\<lparr>Contents = Some [\<lparr>Key = ''s1''\<rparr>, \<lparr>Key = ''s2''\<rparr>, \<lparr>Key = ''s3''\<rparr>]\<rparr>"
  let ?cap = "\<lparr>Contents = Some [\<lparr>Key = ''s1''\<rparr>]\<rparr>"
  have h1: "userId_of ?r \<noteq> ''''" and h2: "videoId_of ?r \<noteq> ''''"
    and h3: "db_select example_env (videoId_of ?r)
               = Inr (\<lparr>ownerId = ''u1'', public = Some True\<rparr> # [])"
    and h4: "public \<lparr>ownerId = ''u1'', public = Some True\<rparr> \<noteq> Some False
               \<or> (\<exists>u. getCurrentUser example_env = Inr (Some u)
                      \<and> userId u = ownerId \<lparr>ownerId = ''u1'', public = Some True\<rparr>)"
    and h5: "prefix_of (userId_of ?r) (videoId_of ?r) (videoType_of ?r) = Some ''u1/v1/screen/''"
    and h6: "s3_list example_env
               \<lparr>Bucket = bucket_of example_env, Prefix = ''u1/v1/screen/'', MaxKeys = None\<rparr>
              = Inr ?unc"
    and h7: "contents_of ?unc = \<lparr>Key = ''s1''\<rparr> # [\<lparr>Key = ''s2''\<rparr>, \<lparr>Key = ''s3''\<rparr>]"
    and h8: "s3_list example_env
               \<lparr>Bucket = bucket_of example_env, Prefix = ''u1/v1/screen/'', MaxKeys = Some 1\<rparr>
              = Inr ?cap"
    and h9: "contents_of ?cap = [\<lparr>Key = ''s1''\<rparr>]"
    and h11: "thumbnail_of ?r \<noteq> ''''"
    by (simp_all add: example_simps)
  have h10: "\<forall>obj \<in> set (\<lparr>Key = ''s1''\<rparr> # [\<lparr>Key = ''s2''\<rparr>, \<lparr>Key = ''s3''\<rparr>]).
               \<exists>c. chunk_callback example_env (bucket_of example_env) (Key obj) = Inr c"
    by (simp add: example_simps chunk_callback_def)
  have first: "chunk_callback example_env (bucket_of example_env) (Key \<lparr>Key = ''s1''\<rparr>)
                 = Inr \<lparr>url = ''https://s3/s1'', duration = ''4.0''\<rparr>"
    by (simp add: example_simps chunk_callback_def chunk_of_def duration_field_def)
  note t = thumbnail_caps_listing_at_one [OF h1 h2 h3 h4 hc h5 h6 h7 h8 h9 h10,
      where sched = "[]", THEN conjunct1, rule_format, OF h11]
  from t [THEN conjunct2, THEN conjunct2, THEN conjunct1] first
  have c1: "CallBuild [\<lparr>url = ''https://s3/s1'', duration = ''4.0''\<rparr>]
              \<in> set (fst (GET example_env ?r []))"
    by auto
  have c2: "fst (GET example_env ?r []) =
       [CallDb ''v1'',
        CallList \<lparr>Bucket = ''capso'', Prefix = ''u1/v1/screen/'', MaxKeys = Some 1\<rparr>,
        CallSign ''capso'' ''s1'' 3600, CallHead ''capso'' ''s1'',
        CallBuild [\<lparr>url = ''https://s3/s1'', duration = ''4.0''\<rparr>]]"
    by code_simp
  have h4': "public \<lparr>ownerId = ''u1'', public = Some True\<rparr> \<noteq> Some False" by simp
  show ?thesis by (intro conjI; fact)
qed

text \<open>
  C10. For an admitted request for which the storage client was constructed, with a
  valid track whose listing returns no keys
  (\<^verbatim>\<open>Contents\<close> undefined or an empty array), the handler calls the playlist
  generator on the empty list right after the listing, without any signing or
  metadata call; the empty listing is no failure. When the generator returns a text
  for the empty list, the answer has status 200, the content type
  \<^verbatim>\<open>application/x-mpegURL\<close> and that text.
\<close>

theorem empty_listing_gives_empty_playlist:
  assumes "userId_of req \<noteq> ''''" and "videoId_of req \<noteq> ''''"
    and "db_select env (videoId_of req) = Inr (v # rest)"
    and "public v \<noteq> Some False
           \<or> (\<exists>u. getCurrentUser env = Inr (Some u) \<and> userId u = ownerId v)"
    and "new_S3Client env (s3_config_of env) = Inr s3Client"
    and "prefix_of (userId_of req) (videoId_of req) (videoType_of req) = Some prefix"
    and "s3_list env (objectsCommand (bucket_of env) prefix (thumbnail_of req)) = Inr objects"
    and "Contents objects = None \<or> Contents objects = Some []"
  shows "fst (GET env req sched) =
           (if public v = Some False then [CallDb (videoId_of req), CallSession]
            else [CallDb (videoId_of req)])
             @ [CallList (objectsCommand (bucket_of env) prefix (thumbnail_of req)),
                CallBuild []]
             @ (case generateM3U8Playlist env [] of Inl e \<Rightarrow> [LogError e] | Inr p \<Rightarrow> [])
       \<and> (\<forall>playlist. generateM3U8Playlist env [] = Inr playlist \<longrightarrow>
            GET env req sched =
              ((if public v = Some False then [CallDb (videoId_of req), CallSession]
                else [CallDb (videoId_of req)])
                 @ [CallList (objectsCommand (bucket_of env) prefix (thumbnail_of req)),
                    CallBuild []],
               Response \<lparr>status = 200, body = Text playlist,
                         headers = (''content-type'', ''application/x-mpegURL'')
                                     # corsHeaders env req\<rparr>))"
proof -
  from assms(8) have "contents_of objects = []" by (auto simp: contents_of_def)
  with assms(6,7)
  have t: "try_block env req sched =
          (case generateM3U8Playlist env [] of
             Inl e \<Rightarrow>
               caught env req
                 [CallList (objectsCommand (bucket_of env) prefix (thumbnail_of req)),
                  CallBuild []] e
           | Inr generatedPlaylist \<Rightarrow>
               ([CallList (objectsCommand (bucket_of env) prefix (thumbnail_of req)),
                 CallBuild []],
                Response \<lparr>status = 200, body = Text generatedPlaylist,
                          headers = (''content-type'', ''application/x-mpegURL'')
                                      # corsHeaders env req\<rparr>))"
    by (simp add: try_block_def Let_def promise_all_Nil split: sum.splits)
  note g = GET_passes [OF assms(1-5), of sched]
  show ?thesis
  proof (cases "generateM3U8Playlist env []")
    case (Inl e)
    with g t show ?thesis by (simp add: caught_def)
  next
    case (Inr p)
    with g t show ?thesis by simp
  qed
qed

text \<open>The audio track of \<open>v1\<close>, whose listing has no \<^verbatim>\<open>Contents\<close>.\<close>

theorem empty_listing_gives_empty_playlist_witness:
  "userId_of (example_request ''v1'' ''audio'' '''') \<noteq> ''''
   \<and> videoId_of (example_request ''v1'' ''audio'' '''') \<noteq> ''''
   \<and> db_select example_env (videoId_of (example_request ''v1'' ''audio'' ''''))
       = Inr [\<lparr>ownerId = ''u1'', public = Some True\<rparr>]
   \<and> public \<lparr>ownerId = ''u1'', public = Some True\<rparr> \<noteq> Some False
   \<and> new_S3Client example_env (s3_config_of example_env) = Inr ()
   \<and> prefix_of (userId_of (example_request ''v1'' ''audio'' ''''))
        (videoId_of (example_request ''v1'' ''audio'' ''''))
        (videoType_of (example_request ''v1'' ''audio'' '''')) = Some ''u1/v1/audio/''
   \<and> s3_list example_env
        (objectsCommand (bucket_of example_env) ''u1/v1/audio/''
           (thumbnail_of (example_request ''v1'' ''audio'' '''')))
       = Inr \<lparr>Contents = None\<rparr>
   \<and> generateM3U8Playlist example_env [] = Inr ''''
   \<and> GET example_env (example_request ''v1'' ''audio'' '''') [] =
       ([CallDb ''v1'',
         CallList \<lparr>Bucket = ''capso'', Prefix = ''u1/v1/audio/'', MaxKeys = None\<rparr>,
         CallBuild []],
        Response \<lparr>status = 200, body = Text '''',
                  headers = (''content-type'', ''application/x-mpegURL'')
                              # corsHeaders example_env
                                  (example_request ''v1'' ''audio'' '''')\<rparr>)"
proof -
  have hc: "new_S3Client example_env (s3_config_of example_env) = Inr ()"
    by (simp add: example_simps s3_config_of_def)
  let ?r = "example_request ''v1'' ''audio'' ''''"
  have h1: "userId_of ?r \<noteq> ''''" and h2: "videoId_of ?r \<noteq> ''''"
    and h3: "db_select example_env (videoId_of ?r)
               = Inr (\<lparr>ownerId = ''u1'', public = Some True\<rparr> # [])"
    and h4: "public \<lparr>ownerId = ''u1'', public = Some True\<rparr> \<noteq> Some False
               \<or> (\<exists>u. getCurrentUser example_env = Inr (Some u)
                      \<and> userId u = ownerId \<lparr>ownerId = ''u1'', public = Some True\<rparr>)"
    and h5: "prefix_of (userId_of ?r) (videoId_of ?r) (videoType_of ?r) = Some ''u1/v1/audio/''"
    and h6: "s3_list example_env
               (objectsCommand (bucket_of example_env) ''u1/v1/audio/'' (thumbnail_of ?r))
              = Inr \<lparr>Contents = None\<rparr>"
    and h7: "Contents \<lparr>Contents = None\<rparr> = None \<or> Contents \<lparr>Contents = None\<rparr> = Some []"
    and h8: "generateM3U8Playlist example_env [] = Inr ''''"
    by (simp_all add: example_simps generateM3U8Playlist_spec_def manifest_entries_def)
  have e: "videoId_of ?r = ''v1''"
    "objectsCommand (bucket_of example_env) ''u1/v1/audio/'' (thumbnail_of ?r)
       = \<lparr>Bucket = ''capso'', Prefix = ''u1/v1/audio/'', MaxKeys = None\<rparr>"
    by (simp_all add: example_simps)
  from empty_listing_gives_empty_playlist [OF h1 h2 h3 h4 hc h5 h6 h7, where sched = "[]",
      THEN conjunct2, rule_format, OF h8] e
  have c: "GET example_env ?r [] =
       ([CallDb ''v1'',
         CallList \<lparr>Bucket = ''capso'', Prefix = ''u1/v1/audio/'', MaxKeys = None\<rparr>,
         CallBuild []],
        Response \<lparr>status = 200, body = Text '''',
                  headers = (''content-type'', ''application/x-mpegURL'')
                              # corsHeaders example_env ?r\<rparr>)"
    by simp
  have h4': "public \<lparr>ownerId = ''u1'', public = Some True\<rparr> \<noteq> Some False" by simp
  show ?thesis by (intro conjI; fact)
qed

text \<open>
  C9. An admitted request for which the storage client was constructed, with a valid
  track, issues exactly one listing command, and
  its \<^verbatim>\<open>MaxKeys\<close> is 1 when the \<^verbatim>\<open>thumbnail\<close> parameter is any string that is not
  empty (also "false" or "0"), and undefined when the parameter is absent or empty.
\<close>

theorem thumbnail_any_nonempty_string:
  assumes "userId_of req \<noteq> ''''" and "videoId_of req \<noteq> ''''"
    and "db_select env (videoId_of req) = Inr (v # rest)"
    and "public v \<noteq> Some False
           \<or> (\<exists>u. getCurrentUser env = Inr (Some u) \<and> userId u = ownerId v)"
    and "new_S3Client env (s3_config_of env) = Inr s3Client"
    and "prefix_of (userId_of req) (videoId_of req) (videoType_of req) = Some prefix"
  shows "\<forall>cmd. CallList cmd \<in> set (fst (GET env req sched)) \<longleftrightarrow>
           cmd = \<lparr>Bucket = bucket_of env, Prefix = prefix,
                  MaxKeys = (case searchParams req ''thumbnail'' of
                               None \<Rightarrow> None
                             | Some s \<Rightarrow> if s = '''' then None else Some 1)\<rparr>"
proof -
  have "objectsCommand (bucket_of env) prefix (thumbnail_of req) =
          \<lparr>Bucket = bucket_of env, Prefix = prefix,
           MaxKeys = (case searchParams req ''thumbnail'' of
                        None \<Rightarrow> None
                      | Some s \<Rightarrow> if s = '''' then None else Some 1)\<rparr>"
    by (simp add: objectsCommand_def thumbnail_of_def or_empty_def split: option.splits)
  with GET_trace(1) [OF assms, of _ sched] show ?thesis by simp
qed

text \<open>The screen track of \<open>v1\<close> requested with \<^verbatim>\<open>thumbnail=false\<close>: the listing is
  capped at one key.\<close>

theorem thumbnail_any_nonempty_string_witness:
  "userId_of (example_request ''v1'' ''screen'' ''false'') \<noteq> ''''
   \<and> videoId_of (example_request ''v1'' ''screen'' ''false'') \<noteq> ''''
   \<and> db_select example_env (videoId_of (example_request ''v1'' ''screen'' ''false''))
       = Inr [\<lparr>ownerId = ''u1'', public = Some True\<rparr>]
   \<and> public \<lparr>ownerId = ''u1'', public = Some True\<rparr> \<noteq> Some False
   \<and> new_S3Client example_env (s3_config_of example_env) = Inr ()
   \<and> prefix_of (userId_of (example_request ''v1'' ''screen'' ''false''))
        (videoId_of (example_request ''v1'' ''screen'' ''false''))
        (videoType_of (example_request ''v1'' ''screen'' ''false'')) = Some ''u1/v1/screen/''
   \<and> (\<forall>cmd. CallList cmd
               \<in> set (fst (GET example_env (example_request ''v1'' ''screen'' ''false'') []))
         \<longleftrightarrow> cmd = \<lparr>Bucket = ''capso'', Prefix = ''u1/v1/screen/'', MaxKeys = Some 1\<rparr>)"
proof -
  have hc: "new_S3Client example_env (s3_config_of example_env) = Inr ()"
    by (simp add: example_simps s3_config_of_def)
  let ?r = "example_request ''v1'' ''screen'' ''false''"
  have h1: "userId_of ?r \<noteq> ''''" and h2: "videoId_of ?r \<noteq> ''''"
    and h3: "db_select example_env (videoId_of ?r)
               = Inr (\<lparr>ownerId = ''u1'', public = Some True\<rparr> # [])"
    and h4: "public \<lparr>ownerId = ''u1'', public = Some True\<rparr> \<noteq> Some False
               \<or> (\<exists>u. getCurrentUser example_env = Inr (Some u)
                      \<and> userId u = ownerId \<lparr>ownerId = ''u1'', public = Some True\<rparr>)"
    and h5: "prefix_of (userId_of ?r) (videoId_of ?r) (videoType_of ?r) = Some ''u1/v1/screen/''"
    by (simp_all add: example_simps)
  have e: "bucket_of example_env = ''capso''"
    "(case searchParams ?r ''thumbnail'' of None \<Rightarrow> None
      | Some s \<Rightarrow> if s = '''' then None else Some (1::nat)) = Some 1"
    by (simp_all add: example_simps)
  from thumbnail_any_nonempty_string [OF h1 h2 h3 h4 hc h5, where sched = "[]"] e
  have c: "\<forall>cmd. CallList cmd \<in> set (fst (GET example_env ?r []))
         \<longleftrightarrow> cmd = \<lparr>Bucket = ''capso'', Prefix = ''u1/v1/screen/'', MaxKeys = Some 1\<rparr>"
    by simp
  have h4': "public \<lparr>ownerId = ''u1'', public = Some True\<rparr> \<noteq> Some False" by simp
  show ?thesis by (intro conjI; fact)
qed

end
